theory Spec2Isabelle
  imports Complex_Main "HOL-Library.Sublist" "HOL-Library.AList"
begin

section \<open>JavaScript strings and the built-ins the handlers use\<close>

text \<open>
  A JavaScript string is modelled as a \<^typ>\<open>string\<close>: a list of code units, here the
  code units below 256. An exception is the value \<open>Inl (Error msg)\<close> of a sum type, where
  \<open>msg\<close> is the message of the JavaScript \<open>Error\<close>.
\<close>

datatype error = Error string

fun message :: "error \<Rightarrow> string" where
  "message (Error msg) = msg"

text \<open>The class \<open>\s\<close> of a regular expression, which is also what \<open>trim\<close> removes.\<close>

definition isSpace :: "char \<Rightarrow> bool" where
  "isSpace c \<longleftrightarrow>
     c = CHR 0x09 \<or> c = CHR 0x0A \<or> c = CHR 0x0B \<or> c = CHR 0x0C \<or> c = CHR 0x0D \<or>
     c = CHR 0x20 \<or> c = CHR 0xA0"

text \<open>The class \<open>\w\<close>: letters, digits and the underscore.\<close>

definition isWord :: "char \<Rightarrow> bool" where
  "isWord c \<longleftrightarrow>
     (let n = (of_char c :: nat)
      in (48 \<le> n \<and> n \<le> 57) \<or> (65 \<le> n \<and> n \<le> 90) \<or> (97 \<le> n \<and> n \<le> 122) \<or> n = 95)"

definition trim :: "string \<Rightarrow> string" where
  "trim s = rev (dropWhile isSpace (rev (dropWhile isSpace s)))"

text \<open>\<open>indexOf\<close> and \<open>lastIndexOf\<close> of one character: the index, or \<open>-1\<close>.\<close>

fun indexOf :: "string \<Rightarrow> char \<Rightarrow> int" where
  "indexOf [] c = -1"
| "indexOf (x # xs) c =
     (if x = c then 0 else (let r = indexOf xs c in if r = -1 then -1 else r + 1))"

fun lastIndexOf :: "string \<Rightarrow> char \<Rightarrow> int" where
  "lastIndexOf [] c = -1"
| "lastIndexOf (x # xs) c =
     (let r = lastIndexOf xs c in if r \<noteq> -1 then r + 1 else if x = c then 0 else -1)"

text \<open>\<open>s.substring(a, b)\<close> for \<open>0 \<le> a \<le> b\<close>, the only way the handlers call it.\<close>

definition substring :: "string \<Rightarrow> int \<Rightarrow> int \<Rightarrow> string" where
  "substring s a b = take (nat (b - a)) (drop (nat a) s)"

text \<open>
  \<open>s.replace(/re/g, repl)\<close>: a matcher says whether the expression matches at the start of
  its argument, and then gives the replacement text and the input left after the match.
  The scan goes from left to right, copies a character where nothing matches, and goes on
  after a match. No expression of the handlers matches the empty string.
\<close>

type_synonym matcher = "string \<Rightarrow> (string \<times> string) option"

function replaceAll :: "matcher \<Rightarrow> string \<Rightarrow> string" where
  "replaceAll m [] = []"
| "replaceAll m (c # cs) =
     (case m (c # cs) of
        None \<Rightarrow> c # replaceAll m cs
      | Some (out, rest) \<Rightarrow>
          if length rest < length (c # cs) then out @ replaceAll m rest
          else c # replaceAll m cs)"
  by pat_completeness auto
termination
  by (relation "measure (\<lambda>(m, s). length s)") auto

section \<open>extractAndCleanJSON\<close>

text \<open>\<open>/```json\s*/\<close> and \<open>/```\s*/\<close>, both replaced by the empty string.\<close>

definition reFenceJson :: matcher where
  "reFenceJson s =
     (if prefix ''```json'' s then Some ([], dropWhile isSpace (drop 7 s)) else None)"

definition reFence :: matcher where
  "reFence s = (if prefix ''```'' s then Some ([], dropWhile isSpace (drop 3 s)) else None)"

text \<open>\<open>/,(\s*[}\]])/\<close> replaced by \<open>$1\<close>: a comma before a closing brace or bracket goes.\<close>

definition reTrailingComma :: matcher where
  "reTrailingComma s =
     (case s of
        [] \<Rightarrow> None
      | c # r \<Rightarrow>
          if c = CHR '','' then
            (case dropWhile isSpace r of
               [] \<Rightarrow> None
             | d # r' \<Rightarrow>
                 if d = CHR ''}'' \<or> d = CHR '']'' then Some (takeWhile isSpace r @ [d], r')
                 else None)
          else None)"

text \<open>\<open>/([{,]\s*)(\w+):/\<close> replaced by \<open>$1"$2":\<close>: a bare key gets its quotes.\<close>

definition reBareKey :: matcher where
  "reBareKey s =
     (case s of
        [] \<Rightarrow> None
      | c # r \<Rightarrow>
          if c = CHR ''{'' \<or> c = CHR '','' then
            (let ws = takeWhile isSpace r;
                 r1 = dropWhile isSpace r;
                 w = takeWhile isWord r1
             in case dropWhile isWord r1 of
                  [] \<Rightarrow> None
                | d # r2 \<Rightarrow>
                    if w \<noteq> [] \<and> d = CHR '':'' then
                      Some (c # ws @ [CHR 0x22] @ w @ [CHR 0x22, CHR '':''], r2)
                    else None)
          else None)"

text \<open>\<open>/:\s*'([^']*)'/\<close> replaced by \<open>: "$1"\<close>: a single-quoted value gets double quotes.\<close>

definition reSingleQuoted :: matcher where
  "reSingleQuoted s =
     (case s of
        [] \<Rightarrow> None
      | c # r \<Rightarrow>
          if c = CHR '':'' then
            (case dropWhile isSpace r of
               [] \<Rightarrow> None
             | q # r1 \<Rightarrow>
                 if q = CHR 0x27 then
                   (case dropWhile (\<lambda>x. x \<noteq> CHR 0x27) r1 of
                      [] \<Rightarrow> None
                    | q' # r2 \<Rightarrow>
                        Some ('': '' @ [CHR 0x22] @ takeWhile (\<lambda>x. x \<noteq> CHR 0x27) r1 @ [CHR 0x22],
                              r2))
                 else None)
          else None)"

text \<open>\<open>/\n/\<close> replaced by a space, then \<open>/\s+/\<close> replaced by one space.\<close>

definition newlineToSpace :: "char \<Rightarrow> char" where
  "newlineToSpace c = (if c = CHR 0x0A then CHR 0x20 else c)"

definition reSpaces :: matcher where
  "reSpaces s =
     (case s of
        [] \<Rightarrow> None
      | c # r \<Rightarrow> if isSpace c then Some ([CHR 0x20], dropWhile isSpace r) else None)"

definition repairJSON :: "string \<Rightarrow> string" where
  "repairJSON s =
     trim (replaceAll reSpaces (map newlineToSpace
       (replaceAll reSingleQuoted (replaceAll reBareKey (replaceAll reTrailingComma s)))))"

text \<open>
  The function of all three source files. Its own \<open>catch\<close> wraps every error it raised
  into a new \<open>Error\<close> with the prefix \<open>Failed to clean JSON: \<close>.
\<close>

definition stripFences :: "string \<Rightarrow> string" where
  "stripFences text = replaceAll reFence (replaceAll reFenceJson text)"

definition extractAndCleanJSON :: "string \<Rightarrow> error + string" where
  "extractAndCleanJSON text =
     (let cleaned = trim (stripFences text);
          startIndex = indexOf cleaned CHR ''{'';
          lastIndex = lastIndexOf cleaned CHR ''}''
      in if startIndex = -1 \<or> lastIndex = -1 \<or> startIndex \<ge> lastIndex
         then Inl (Error (''Failed to clean JSON: '' @ ''No valid JSON object found in response''))
         else Inr (repairJSON (substring cleaned startIndex (lastIndex + 1))))"

text \<open>
  The test of the source on the two indices, as a predicate of a string, and two notions
  the proofs use: the brace characters, and a closing brace after the first opening one.
\<close>

definition noBracePair :: "string \<Rightarrow> bool" where
  "noBracePair s \<longleftrightarrow>
     indexOf s CHR ''{'' = - 1 \<or> lastIndexOf s CHR ''}'' = - 1 \<or>
     indexOf s CHR ''{'' \<ge> lastIndexOf s CHR ''}''"

definition isBrace :: "char \<Rightarrow> bool" where
  "isBrace c \<longleftrightarrow> c = CHR ''{'' \<or> c = CHR ''}''"

definition closesAfterOpen :: "string \<Rightarrow> bool" where
  "closesAfterOpen s \<longleftrightarrow> CHR ''}'' \<in> set (dropWhile (\<lambda>x. x \<noteq> CHR ''{'') s)"

text \<open>
  A character separates the matches of an expression when no match starts at it or runs
  over it.
\<close>

definition separates :: "matcher \<Rightarrow> char \<Rightarrow> bool" where
  "separates m c \<longleftrightarrow>
     (\<forall>v. m (c # v) = None) \<and>
     (\<forall>u v. u \<noteq> [] \<longrightarrow>
        m (u @ c # v) = map_option (\<lambda>(out, rest). (out, rest @ c # v)) (m u))"

section \<open>JavaScript values\<close>

text \<open>
  The values a parsed model response is made of, and \<open>NaN\<close>, which the clamping of a
  score can produce. A number is a real: \<open>Math.max\<close> and \<open>Math.min\<close> compute no new
  number, they select one of their arguments; a literal so large that it parses to
  \<open>Infinity\<close> is outside the model. An object is the list of its own properties, read
  under the fixed names of the handlers; \<open>undefined\<close> is the \<open>None\<close> of a property read.
\<close>

datatype jsval =
    JNull
  | JBool bool
  | JNum real
  | JNaN
  | JStr string
  | JArr "jsval list"
  | JObj "(string \<times> jsval) list"

type_synonym obj = "(string \<times> jsval) list"

fun getProp :: "jsval \<Rightarrow> string \<Rightarrow> jsval option" where
  "getProp (JObj kvs) k = map_of kvs k"
| "getProp v k = None"

text \<open>An assignment to a property of a primitive value does nothing (the files are not strict).\<close>

fun setProp :: "jsval \<Rightarrow> string \<Rightarrow> jsval \<Rightarrow> jsval" where
  "setProp (JObj kvs) k x = JObj (AList.update k x kvs)"
| "setProp v k x = v"

fun getPath :: "jsval \<Rightarrow> string list \<Rightarrow> jsval option" where
  "getPath v [] = Some v"
| "getPath v (k # ks) = (case getProp v k of None \<Rightarrow> None | Some c \<Rightarrow> getPath c ks)"

text \<open>What \<open>!x\<close> tests: \<open>undefined\<close>, \<open>null\<close>, \<open>false\<close>, \<open>0\<close>, \<open>NaN\<close> and \<open>""\<close> are falsy.\<close>

fun truthy :: "jsval option \<Rightarrow> bool" where
  "truthy None = False"
| "truthy (Some JNull) = False"
| "truthy (Some (JBool b)) = b"
| "truthy (Some (JNum x)) = (x \<noteq> 0)"
| "truthy (Some JNaN) = False"
| "truthy (Some (JStr s)) = (s \<noteq> [])"
| "truthy (Some (JArr vs)) = True"
| "truthy (Some (JObj kvs)) = True"

text \<open>
  The platform: \<open>JSON.parse\<close> on a text that starts with an opening brace (it returns an
  object or throws), and the conversion to a number of a string, an array or an object
  (\<open>None\<close> is \<open>NaN\<close>).
\<close>

record platform =
  jsonParse :: "string \<Rightarrow> error + obj"
  coerceNumber :: "jsval \<Rightarrow> real option"

fun toNumber :: "platform \<Rightarrow> jsval \<Rightarrow> real option" where
  "toNumber pf JNull = Some 0"
| "toNumber pf (JBool b) = Some (if b then 1 else 0)"
| "toNumber pf (JNum x) = Some x"
| "toNumber pf JNaN = None"
| "toNumber pf v = coerceNumber pf v"

text \<open>\<open>Math.max(0, Math.min(100, x))\<close>.\<close>

definition clampScore :: "platform \<Rightarrow> jsval \<Rightarrow> jsval" where
  "clampScore pf x = (case toNumber pf x of None \<Rightarrow> JNaN | Some r \<Rightarrow> JNum (max 0 (min 100 r)))"

text \<open>Lines 327 and 328 of main.js: the cleaned text goes to \<open>JSON.parse\<close>.\<close>

definition sanitizeAndParse :: "platform \<Rightarrow> string \<Rightarrow> error + obj" where
  "sanitizeAndParse pf responseText =
     (case extractAndCleanJSON responseText of
        Inl e \<Rightarrow> Inl e
      | Inr cleanedJson \<Rightarrow> jsonParse pf cleanedJson)"

text \<open>A \<open>catch\<close> that throws a new \<open>Error\<close> whose message has a prefix before the old one.\<close>

definition rethrow :: "string \<Rightarrow> error + 'a \<Rightarrow> error + 'a" where
  "rethrow pre r = (case r of Inl e \<Rightarrow> Inl (Error (pre @ message e)) | Inr x \<Rightarrow> Inr x)"

section \<open>analyzeCVContent\<close>

text \<open>
  The model's reply to the analysis prompt is an outcome of the environment: an error, or
  the response text. The prompt, and with it the extracted text, the profile and the career
  path, reach nothing but the model. The loop over the required fields throws at the first
  one that is falsy.
\<close>

fun checkRequired :: "string \<Rightarrow> string list \<Rightarrow> obj \<Rightarrow> error option" where
  "checkRequired pre [] analysis = None"
| "checkRequired pre (field # others) analysis =
     (if \<not> truthy (map_of analysis field) then Some (Error (pre @ field))
      else checkRequired pre others analysis)"

subsection \<open>main.js\<close>

definition requiredFields :: "string list" where
  "requiredFields =
     [''overallScore'', ''careerStageAlignment'', ''strengths'', ''weaknesses'',
      ''profileVsCvGaps'', ''recommendations'', ''nextSteps'', ''marketability'']"

definition scoreFields :: "string list list" where
  "scoreFields =
     [[''overallScore''],
      [''careerStageAlignment'', ''alignmentScore''],
      [''careerPathAlignment'', ''alignmentScore''],
      [''marketability'', ''score'']]"

text \<open>
  One round of the \<open>forEach\<close> over \<open>scoreFields\<close>, for the keys of one path: every key but
  the last navigates, and puts an empty object where the property is falsy; the last key is
  clamped when it is not \<open>undefined\<close>. The object is updated in place, so the result is the
  object after the round. A property read of \<open>undefined\<close> is a \<open>TypeError\<close>.
\<close>

fun clampPath :: "platform \<Rightarrow> string list \<Rightarrow> jsval \<Rightarrow> error + jsval" where
  "clampPath pf [] obj = Inr obj"
| "clampPath pf [lastKey] obj =
     Inr (case getProp obj lastKey of
            None \<Rightarrow> obj
          | Some x \<Rightarrow> setProp obj lastKey (clampScore pf x))"
| "clampPath pf (k # ks) obj =
     (let obj1 = (if truthy (getProp obj k) then obj else setProp obj k (JObj []))
      in case getProp obj1 k of
           None \<Rightarrow> Inl (Error ''Cannot read properties of undefined'')
         | Some child \<Rightarrow>
             (case clampPath pf ks child of
                Inl e \<Rightarrow> Inl e
              | Inr child' \<Rightarrow> Inr (setProp obj1 k child')))"

fun clampAll :: "platform \<Rightarrow> string list list \<Rightarrow> jsval \<Rightarrow> error + jsval" where
  "clampAll pf [] analysis = Inr analysis"
| "clampAll pf (keys # rest) analysis =
     (case clampPath pf keys analysis of
        Inl e \<Rightarrow> Inl e
      | Inr analysis' \<Rightarrow> clampAll pf rest analysis')"

definition analyzeCVContent :: "platform \<Rightarrow> error + string \<Rightarrow> error + jsval" where
  "analyzeCVContent pf reply =
     rethrow ''Failed to analyze CV content: ''
       (case reply of
          Inl e \<Rightarrow> Inl e
        | Inr responseText \<Rightarrow>
            (case sanitizeAndParse pf responseText of
               Inl e \<Rightarrow> Inl e
             | Inr analysis \<Rightarrow>
                 (case checkRequired ''Missing required field in analysis: '' requiredFields analysis of
                    Some e \<Rightarrow> Inl e
                  | None \<Rightarrow> clampAll pf scoreFields (JObj analysis))))"

subsection \<open>part_000\<close>

definition requiredFields_part_000 :: "string list" where
  "requiredFields_part_000 =
     [''overallScore'', ''strengths'', ''weaknesses'', ''profileVsCvGaps'',
      ''recommendations'', ''nextSteps'', ''marketability'']"

text \<open>\<open>x < 0 || x > 100\<close>, which is false for \<open>undefined\<close> and for \<open>NaN\<close>.\<close>

definition outOfRange :: "platform \<Rightarrow> jsval option \<Rightarrow> bool" where
  "outOfRange pf x =
     (case x of
        None \<Rightarrow> False
      | Some v \<Rightarrow> (case toNumber pf v of None \<Rightarrow> False | Some r \<Rightarrow> r < 0 \<or> r > 100))"

definition setNested :: "jsval \<Rightarrow> string \<Rightarrow> string \<Rightarrow> jsval \<Rightarrow> jsval" where
  "setNested obj k1 k2 x =
     (case getProp obj k1 of None \<Rightarrow> obj | Some child \<Rightarrow> setProp obj k1 (setProp child k2 x))"

definition clampScores_part_000 :: "platform \<Rightarrow> jsval \<Rightarrow> jsval" where
  "clampScores_part_000 pf analysis =
     (let a1 = (case getProp analysis ''overallScore'' of
                  None \<Rightarrow> analysis
                | Some x \<Rightarrow>
                    if outOfRange pf (Some x)
                    then setProp analysis ''overallScore'' (clampScore pf x) else analysis);
          a2 = (case getPath a1 [''marketability'', ''score''] of
                  None \<Rightarrow> a1
                | Some x \<Rightarrow>
                    if outOfRange pf (Some x)
                    then setNested a1 ''marketability'' ''score''
                           (clampScore pf (if truthy (Some x) then x else JNum 50))
                    else a1)
      in case getPath a2 [''careerPathAlignment'', ''alignmentScore''] of
           None \<Rightarrow> a2
         | Some x \<Rightarrow>
             if outOfRange pf (Some x) \<and> truthy (getProp a2 ''careerPathAlignment'')
             then setNested a2 ''careerPathAlignment'' ''alignmentScore'' (clampScore pf x)
             else a2)"

definition analyzeCVContent_part_000 :: "platform \<Rightarrow> error + string \<Rightarrow> error + jsval" where
  "analyzeCVContent_part_000 pf reply =
     rethrow ''Failed to analyze CV content: ''
       (case reply of
          Inl e \<Rightarrow> Inl e
        | Inr responseText \<Rightarrow>
            (case sanitizeAndParse pf responseText of
               Inl e \<Rightarrow> Inl e
             | Inr analysis \<Rightarrow>
                 (case checkRequired ''Missing required field in analysis: ''
                         requiredFields_part_000 analysis of
                    Some e \<Rightarrow> Inl e
                  | None \<Rightarrow> Inr (clampScores_part_000 pf (JObj analysis)))))"

subsection \<open>part_001\<close>

text \<open>It tests five fields, one under a name no response carries, and clamps nothing.\<close>

definition requiredFields_part_001 :: "string list" where
  "requiredFields_part_001 =
     [''overallScore'', ''strengths'', ''weaknesses'', ''profileVsCvGPs'', ''recommendations'']"

definition analyzeCVContent_part_001 :: "platform \<Rightarrow> error + string \<Rightarrow> error + jsval" where
  "analyzeCVContent_part_001 pf reply =
     rethrow ''Failed to analyze CV: ''
       (case reply of
          Inl e \<Rightarrow> Inl e
        | Inr responseText \<Rightarrow>
            (case sanitizeAndParse pf responseText of
               Inl e \<Rightarrow> Inl e
             | Inr analysis \<Rightarrow>
                 (case checkRequired ''Missing required field: '' requiredFields_part_001 analysis of
                    Some e \<Rightarrow> Inl e
                  | None \<Rightarrow> Inr (JObj analysis))))"

section \<open>The profile, the career path and generateFallbackAnalysis\<close>

text \<open>
  The documents of the profile store and of the career-path store, with the fields the
  handlers read outside the prompt. A list that a document lacks is the empty list: the
  handlers read the lists through \<open>?.\<close> and \<open>|| []\<close>, which make the two cases one. A
  document without a selected path has the empty string there, falsy like \<open>undefined\<close>.
\<close>

record talent =
  docId :: string
  fullname :: string
  careerStage :: string
  skills :: "string list"
  certifications :: "string list"
  selectedPath :: string

record careerPath =
  pathId :: string
  title :: string
  requiredSkills :: "string list"
  requiredCertifications :: "string list"

definition strs :: "string list \<Rightarrow> jsval" where
  "strs xs = JArr (map JStr xs)"

text \<open>
  The branch for a selected career path, the same in the three files but for two texts:
  \<open>filter\<close> with \<open>includes\<close> over the skills and over the certifications.
\<close>

definition comparedAlignment :: "talent \<Rightarrow> careerPath \<Rightarrow> string \<Rightarrow> string \<Rightarrow> jsval" where
  "comparedAlignment talent careerPath relevant additional =
     JObj
      [(''alignmentScore'', JNum 50),
       (''matchingSkills'',
          strs (filter (\<lambda>skill. skill \<in> set (requiredSkills careerPath)) (skills talent))),
       (''missingSkills'',
          strs (filter (\<lambda>skill. skill \<notin> set (skills talent)) (requiredSkills careerPath))),
       (''matchingCertifications'',
          strs (filter (\<lambda>cert. cert \<in> set (requiredCertifications careerPath))
                  (certifications talent))),
       (''missingCertifications'',
          strs (filter (\<lambda>cert. cert \<notin> set (certifications talent))
                  (requiredCertifications careerPath))),
       (''relevantExperience'', strs [relevant]),
       (''additionalRequirements'', strs [additional])]"

subsection \<open>main.js\<close>

record stageContent =
  stageStrengths :: "string list"
  stageRecommendations :: "string list"
  stageAlignmentScore :: real

definition pathfinderContent :: stageContent where
  "pathfinderContent =
     \<lparr>stageStrengths =
        [''Clear career direction as a Pathfinder seeking initial experience'',
         ''Appropriate stage for skill development and learning'',
         ''Good foundation for entry-level positions''],
      stageRecommendations =
        [''Focus on building foundational skills for your chosen field'',
         ''Seek internships or entry-level positions to gain experience'',
         ''Consider online courses or certifications to strengthen your profile''],
      stageAlignmentScore = 70\<rparr>"

definition trailblazerContent :: stageContent where
  "trailblazerContent =
     \<lparr>stageStrengths =
        [''Career progression mindset appropriate for skill advancement'',
         ''Ready for mid-level challenges and leadership opportunities'',
         ''Good foundation for specialization and expertise development''],
      stageRecommendations =
        [''Focus on advanced skills and specialization in your field'',
         ''Seek leadership or mentoring opportunities'',
         ''Consider advanced certifications to demonstrate expertise''],
      stageAlignmentScore = 60\<rparr>"

definition horizonChangerContent :: stageContent where
  "horizonChangerContent =
     \<lparr>stageStrengths =
        [''Valuable experience from previous career to leverage'',
         ''Mature approach to career transition and change'',
         ''Transferable skills that can benefit new field''],
      stageRecommendations =
        [''Highlight transferable skills from your previous career'',
         ''Identify skill gaps specific to your new chosen field'',
         ''Consider bridge training or certifications for career transition''],
      stageAlignmentScore = 55\<rparr>"

text \<open>
  \<open>stageSpecificContent[talent.careerStage] || stageSpecificContent['Pathfinder']\<close>. The
  table is an object literal, so a label that names a property every object inherits reads
  that property, a function or the prototype: it is truthy and the default is not taken.
\<close>

definition inheritedNames :: "string list" where
  "inheritedNames =
     [''constructor'', ''__proto__'', ''__defineGetter__'', ''__defineSetter__'',
      ''__lookupGetter__'', ''__lookupSetter__'', ''hasOwnProperty'', ''isPrototypeOf'',
      ''propertyIsEnumerable'', ''toLocaleString'', ''toString'', ''valueOf'']"

datatype stageEntry = Entry stageContent | Inherited

definition stageSpecificContent :: "string \<Rightarrow> stageEntry" where
  "stageSpecificContent stage =
     (if stage = ''Pathfinder'' then Entry pathfinderContent
      else if stage = ''Trailblazer'' then Entry trailblazerContent
      else if stage = ''Horizon Changer'' then Entry horizonChangerContent
      else if stage \<in> set inheritedNames then Inherited
      else Entry pathfinderContent)"

text \<open>The object literal of lines 428 to 501, for an entry of the table.\<close>

definition fallbackReport :: "stageContent \<Rightarrow> talent \<Rightarrow> careerPath option \<Rightarrow> jsval" where
  "fallbackReport stageContent talent careerPath =
     (JObj
       [(''overallScore'', JNum 65),
        (''careerStageAlignment'', JObj
           [(''alignmentScore'', JNum (stageAlignmentScore stageContent)),
            (''isAppropriateForStage'', JBool True),
            (''experienceLevel'', JStr (''Analysis limited - declared as '' @ careerStage talent)),
            (''stageJustification'',
               JStr ''Could not perform detailed experience validation at this time''),
            (''recommendations'', strs
               [''Complete CV analysis needed to validate career stage alignment'',
                ''Ensure CV clearly shows experience level appropriate for your stage'']),
            (''redFlags'', strs
               [''Unable to verify experience level against declared career stage''])]),
        (''strengths'', strs (stageStrengths stageContent)),
        (''weaknesses'', strs
           [''Unable to fully analyze CV content due to technical limitations'',
            ''Limited visibility into detailed work experience'',
            ''Cannot verify consistency between profile and CV'']),
        (''profileVsCvGaps'', JObj
           [(''missingFromCV'', strs [''Analysis temporarily unavailable'']),
            (''missingFromProfile'', strs [''Analysis temporarily unavailable'']),
            (''inconsistencies'', strs [''Could not perform detailed comparison at this time''])]),
        (''careerPathAlignment'',
           (case careerPath of
              Some cp \<Rightarrow>
                comparedAlignment talent cp ''Analysis based on profile information only''
                  ''Complete detailed CV analysis for comprehensive insights''
            | None \<Rightarrow> JObj
                [(''alignmentScore'', JNum 0),
                 (''matchingSkills'', strs []),
                 (''missingSkills'', strs []),
                 (''matchingCertifications'', strs []),
                 (''missingCertifications'', strs []),
                 (''relevantExperience'', strs [''No career path selected for comparison'']),
                 (''additionalRequirements'', strs [''Select a career path for targeted guidance''])])),
        (''recommendations'', strs
           (stageRecommendations stageContent @
            [''Ensure CV is in a clear, readable format (PDF recommended)'',
             ''Update your profile with complete and accurate information'',
             ''Try re-uploading your CV if the format may have caused issues''])),
        (''nextSteps'', strs
           [''Re-attempt CV upload with optimized file format'',
            ''Complete all sections of your professional profile'',
            ''Review and update your skills and certifications list'',
            (case careerPath of
               Some cp \<Rightarrow> ''Focus development on '' @ title cp @ '' requirements''
             | None \<Rightarrow> ''Consider career path selection for personalized guidance'')]),
        (''marketability'', JObj
           [(''score'', JNum 55),
            (''summary'', JStr (''Basic assessment for '' @ careerStage talent
               @ '' stage - complete CV analysis needed for detailed insights'')),
            (''competitiveAdvantages'', strs
               [''Professional profile information available'',
                ''Clear '' @ careerStage talent @ '' career stage identification'',
                ''Structured approach to career development'']),
            (''improvementAreas'', strs
               [''Need comprehensive CV analysis'',
                ''Profile optimization required'',
                ''Detailed skill verification needed''])])])"

text \<open>
  For an inherited property the strengths and the alignment score are \<open>undefined\<close>, and
  the spread of \<open>stageContent.recommendations\<close> at line 476 throws a \<open>TypeError\<close>.
\<close>

definition generateFallbackAnalysis :: "talent \<Rightarrow> careerPath option \<Rightarrow> error + jsval" where
  "generateFallbackAnalysis talent careerPath =
     (case stageSpecificContent (careerStage talent) of
        Inherited \<Rightarrow> Inl (Error ''stageContent.recommendations is not iterable'')
      | Entry stageContent \<Rightarrow> Inr (fallbackReport stageContent talent careerPath))"


subsection \<open>part_000\<close>

definition generateFallbackAnalysis_part_000 :: "talent \<Rightarrow> careerPath option \<Rightarrow> jsval" where
  "generateFallbackAnalysis_part_000 talent careerPath =
     JObj
      [(''overallScore'', JNum 65),
       (''strengths'', strs
          [''Profile shows clear career direction and purpose'',
           ''Appropriate skill set for '' @ careerStage talent @ '' career stage'',
           ''Demonstrates commitment to professional development'']),
       (''weaknesses'', strs
          [''Unable to fully analyze CV content due to technical limitations'',
           ''Limited visibility into detailed work experience'',
           ''Cannot verify consistency between profile and CV'']),
       (''profileVsCvGaps'', JObj
          [(''missingFromCV'', strs [''Analysis temporarily unavailable'']),
           (''missingFromProfile'', strs [''Analysis temporarily unavailable'']),
           (''inconsistencies'', strs [''Could not perform detailed comparison at this time''])]),
       (''careerPathAlignment'',
          (case careerPath of
             Some cp \<Rightarrow>
               comparedAlignment talent cp ''Analysis based on profile information only''
                 ''Complete detailed CV analysis for comprehensive insights''
           | None \<Rightarrow> JObj
               [(''alignmentScore'', JNum 0),
                (''matchingSkills'', strs []),
                (''missingSkills'', strs []),
                (''matchingCertifications'', strs []),
                (''missingCertifications'', strs []),
                (''relevantExperience'', strs [''No career path selected for comparison'']),
                (''additionalRequirements'', strs [''Select a career path for targeted guidance''])])),
       (''recommendations'', strs
          [''Ensure CV is in a clear, readable format (PDF recommended)'',
           ''Update your profile with complete and accurate information'',
           (case careerPath of
              Some cp \<Rightarrow> ''Focus on developing required skills for '' @ title cp
            | None \<Rightarrow> ''Consider selecting a career path for targeted recommendations''),
           ''Try re-uploading your CV if the format may have caused issues'']),
       (''nextSteps'', strs
          [''Re-attempt CV upload with optimized file format'',
           ''Complete all sections of your professional profile'',
           ''Review and update your skills and certifications list'',
           ''Consider career path selection for personalized guidance'']),
       (''marketability'', JObj
          [(''score'', JNum 55),
           (''summary'', JStr
              ''Basic assessment available - complete CV analysis needed for detailed insights''),
           (''competitiveAdvantages'', strs
              [''Professional profile information available'',
               ''Clear career stage identification'']),
           (''improvementAreas'', strs
              [''Need comprehensive CV analysis'',
               ''Profile optimization required'',
               ''Detailed skill verification needed''])])]"

subsection \<open>part_001\<close>

definition generateFallbackAnalysis_part_001 :: "talent \<Rightarrow> careerPath option \<Rightarrow> jsval" where
  "generateFallbackAnalysis_part_001 talent careerPath =
     JObj
      [(''overallScore'', JNum 65),
       (''strengths'', strs
          [''Profile shows clear career direction'',
           ''Strong foundation for '' @ careerStage talent @ '' level'',
           ''Diverse interests and background'']),
       (''weaknesses'', strs
          [''Unable to fully analyze CV content'',
           ''Limited visibility into actual experience'',
           ''Cannot verify skill claims'']),
       (''profileVsCvGaps'', JObj
          [(''missingFromCV'', strs [''Analysis unavailable'']),
           (''missingFromProfile'', strs [''Analysis unavailable'']),
           (''inconsistencies'', strs [''Could not perform comparison''])]),
       (''careerPathAlignment'',
          (case careerPath of
             Some cp \<Rightarrow>
               comparedAlignment talent cp ''Based on profile information only''
                 ''Complete CV analysis for detailed insights''
           | None \<Rightarrow> JObj
               [(''alignmentScore'', JNum 0),
                (''message'', JStr ''No career path selected for comparison'')])),
       (''recommendations'', strs
          [''Ensure CV is readable and properly formatted'',
           ''Update your profile with accurate information'',
           (case careerPath of
              Some cp \<Rightarrow> ''Focus on developing skills for '' @ title cp
            | None \<Rightarrow> ''Select a career path for targeted advice'')]),
       (''nextSteps'', strs
          [''Try uploading CV again with better quality'',
           ''Complete your profile information'',
           ''Consider selecting a career path for guidance'']),
       (''marketability'', JObj
          [(''score'', JNum 55),
           (''summary'', JStr ''Basic analysis available - upload a clear CV for detailed insights''),
           (''competitiveAdvantages'', strs [''Profile information available'']),
           (''improvementAreas'', strs [''Need complete CV analysis'', ''Profile optimization''])])]"

section \<open>The handlers\<close>

text \<open>
  The parsed request. A field that is absent and a field that is the empty string are both
  falsy, and the handlers test no more than that: both are the empty string here. The body
  is text that does not parse, or \<open>null\<close>, whose destructuring throws, or a payload.
\<close>

record request =
  talentId :: string
  fileData :: string
  fileName :: string

datatype body = Malformed | Nullish | Payload request

text \<open>
  The collaborators, as the outcomes of their calls: the configured key of the model, the
  two stores, the staging and the release of the file, the replies of the model to the
  extraction and to the analysis request, whether \<open>res.json\<close> returns on the success path,
  and the clock.
\<close>

record env =
  apiKey :: bool
  listDocuments :: "string \<Rightarrow> error + talent list"
  getDocument :: "string \<Rightarrow> error + careerPath"
  createFile :: "error + string"
  deleteFile :: "string \<Rightarrow> bool"
  extractReply :: "error + string"
  analysisReply :: "error + string"
  respond :: bool
  startTime :: int
  endTime :: int
  timestamp :: string

text \<open>The calls a handler makes, in order; a release carries whether it succeeded.\<close>

datatype call =
    ListDocuments string
  | GetDocument string
  | CreateFile
  | GenerateFromFile
  | GenerateFromText
  | DeleteFile string bool

record metadata =
  talentInfo :: "string \<times> string \<times> string"
  careerPathInfo :: "(string \<times> string) option"
  reportedFileName :: string
  analyzedAt :: string
  executionTime :: int
  usedFallback :: bool

record response =
  success :: bool
  statusCode :: nat
  analysis :: "jsval option"
  metadata :: "metadata option"
  errorText :: "string option"
  elapsed :: "int option"

definition failure :: "nat \<Rightarrow> string \<Rightarrow> response" where
  "failure code msg =
     \<lparr>success = False, statusCode = code, analysis = None, metadata = None,
      errorText = Some msg, elapsed = None\<rparr>"

text \<open>The response of the outer \<open>catch\<close>.\<close>

definition internalError :: "env \<Rightarrow> string \<Rightarrow> response" where
  "internalError env msg =
     \<lparr>success = False, statusCode = 500, analysis = None, metadata = None,
      errorText = Some msg, elapsed = Some (endTime env - startTime env)\<rparr>"

definition report :: "env \<Rightarrow> request \<Rightarrow> talent \<Rightarrow> careerPath option \<Rightarrow> jsval \<Rightarrow> bool \<Rightarrow> response" where
  "report env rq talent careerPath result fallback =
     \<lparr>success = True, statusCode = 200, analysis = Some result,
      metadata = Some
        \<lparr>talentInfo = (docId talent, fullname talent, careerStage talent),
         careerPathInfo = map_option (\<lambda>cp. (pathId cp, title cp)) careerPath,
         reportedFileName = fileName rq,
         analyzedAt = timestamp env,
         executionTime = endTime env - startTime env,
         usedFallback = fallback\<rparr>,
      errorText = None, elapsed = None\<rparr>"

definition toLowerCase :: "string \<Rightarrow> string" where
  "toLowerCase =
     map (\<lambda>c. let n = (of_char c :: nat)
              in if (65 \<le> n \<and> n \<le> 90) \<or> (192 \<le> n \<and> n \<le> 222 \<and> n \<noteq> 215)
                 then char_of (n + 32) else c)"

text \<open>
  \<open>fileName.toLowerCase().substring(fileName.lastIndexOf('.'))\<close>: without a dot the index
  is \<open>-1\<close>, which \<open>substring\<close> takes as \<open>0\<close>.
\<close>

definition fileExtension :: "string \<Rightarrow> string" where
  "fileExtension name = drop (nat (lastIndexOf name CHR ''.'')) (toLowerCase name)"

definition allowedExtensions :: "string list" where
  "allowedExtensions = [''.pdf'', ''.jpg'', ''.jpeg'', ''.png'', ''.doc'', ''.docx'']"

definition fetchCareerPath :: "env \<Rightarrow> talent \<Rightarrow> careerPath option \<times> call list" where
  "fetchCareerPath env talent =
     (if selectedPath talent = [] then (None, [])
      else (case getDocument env (selectedPath talent) of
              Inl e \<Rightarrow> (None, [GetDocument (selectedPath talent)])
            | Inr cp \<Rightarrow> (Some cp, [GetDocument (selectedPath talent)])))"

text \<open>The \<open>finally\<close> block and the cleanup of the outer \<open>catch\<close>: \<open>if (uploadedFileId)\<close>.\<close>

definition releaseFile :: "env \<Rightarrow> string \<Rightarrow> call list" where
  "releaseFile env uploadedFileId =
     (if uploadedFileId = [] then []
      else [DeleteFile uploadedFileId (deleteFile env uploadedFileId)])"

subsection \<open>main.js and part_000\<close>

definition preflight :: "env \<Rightarrow> body \<Rightarrow> response + request" where
  "preflight env b =
     (if \<not> apiKey env then Inl (failure 500 ''Server configuration error'')
      else case b of
        Malformed \<Rightarrow> Inl (failure 400 ''Invalid JSON input'')
      | Nullish \<Rightarrow> Inl (internalError env ''Internal server error occurred during analysis'')
      | Payload rq \<Rightarrow>
          if talentId rq = [] \<or> fileData rq = [] \<or> fileName rq = []
          then Inl (failure 400 ''Missing required parameters: talentId, fileData, fileName'')
          else if fileExtension (fileName rq) \<notin> set allowedExtensions
          then Inl (failure 400
            ''Unsupported file type. Please upload PDF, DOC, DOCX, JPG, or PNG files.'')
          else if real (length (fileData rq)) * 3 / 4 > 5 * 1024 * 1024
          then Inl (failure 400 ''File size too large. Please upload files smaller than 5MB.'')
          else Inr rq)"

definition fetchTalent :: "env \<Rightarrow> string \<Rightarrow> response + talent" where
  "fetchTalent env tid =
     (case listDocuments env tid of
        Inl e \<Rightarrow> Inl (failure 500 ''Failed to fetch talent information'')
      | Inr [] \<Rightarrow> Inl (failure 404 ''Talent profile not found'')
      | Inr (talent # others) \<Rightarrow> Inr talent)"

definition extractTextFromCV :: "env \<Rightarrow> error + string" where
  "extractTextFromCV env =
     rethrow ''Failed to extract text from CV: ''
       (case extractReply env of
          Inl e \<Rightarrow> Inl e
        | Inr extractedText \<Rightarrow>
            if extractedText = [] \<or> length (trim extractedText) < 50
            then Inl (Error ''Insufficient text extracted from document'')
            else Inr extractedText)"

text \<open>
  The inner \<open>try\<close>: a failed staging is caught on the spot and leaves \<open>uploadedFileId\<close> at
  \<open>null\<close>; then the extraction, then the analysis. The result is the staged file's
  identifier (empty for \<open>null\<close>), the outcome, and the calls made.
\<close>

definition tryAnalysis ::
  "(platform \<Rightarrow> error + string \<Rightarrow> error + jsval) \<Rightarrow> platform \<Rightarrow> env
     \<Rightarrow> string \<times> (error + jsval) \<times> call list" where
  "tryAnalysis analyze pf env =
     (let uploadedFileId = (case createFile env of Inl e \<Rightarrow> [] | Inr fileId \<Rightarrow> fileId)
      in case extractTextFromCV env of
           Inl e \<Rightarrow> (uploadedFileId, Inl e, [CreateFile, GenerateFromFile])
         | Inr cvText \<Rightarrow>
             (uploadedFileId, analyze pf (analysisReply env),
              [CreateFile, GenerateFromFile, GenerateFromText]))"

text \<open>
  After the inner \<open>try\<close>: the \<open>catch\<close> builds the fallback, the \<open>finally\<close> releases the
  file, and the response goes out. When the fallback builder throws in the \<open>catch\<close>, or
  \<open>res.json\<close> throws, the \<open>finally\<close> block has run, and the outer \<open>catch\<close> runs its own
  cleanup on the same \<open>uploadedFileId\<close> and answers 500.
\<close>

definition conclude ::
  "(talent \<Rightarrow> careerPath option \<Rightarrow> error + jsval) \<Rightarrow> string \<Rightarrow> env \<Rightarrow> request \<Rightarrow> talent
     \<Rightarrow> careerPath option \<Rightarrow> string \<times> (error + jsval) \<times> call list
     \<Rightarrow> call list \<Rightarrow> response \<times> call list" where
  "conclude fallback msg env rq talent careerPath attempt earlier =
     (case attempt of
        (uploadedFileId, outcome, calls) \<Rightarrow>
          (let result = (case outcome of Inr a \<Rightarrow> Inr a | Inl e \<Rightarrow> fallback talent careerPath);
               usedFallback = (case outcome of Inr a \<Rightarrow> False | Inl e \<Rightarrow> True);
               made = earlier @ calls @ releaseFile env uploadedFileId
           in case result of
                Inl thrown \<Rightarrow> (internalError env msg, made @ releaseFile env uploadedFileId)
              | Inr r \<Rightarrow>
                  if respond env
                  then (report env rq talent careerPath r usedFallback, made)
                  else (internalError env msg, made @ releaseFile env uploadedFileId)))"

definition pipeline ::
  "(platform \<Rightarrow> error + string \<Rightarrow> error + jsval)
     \<Rightarrow> (talent \<Rightarrow> careerPath option \<Rightarrow> error + jsval)
     \<Rightarrow> platform \<Rightarrow> env \<Rightarrow> body \<Rightarrow> response \<times> call list" where
  "pipeline analyze fallback pf env b =
     (case preflight env b of
        Inl r \<Rightarrow> (r, [])
      | Inr rq \<Rightarrow>
          (case fetchTalent env (talentId rq) of
             Inl r \<Rightarrow> (r, [ListDocuments (talentId rq)])
           | Inr talent \<Rightarrow>
               (case fetchCareerPath env talent of
                  (careerPath, calls) \<Rightarrow>
                    conclude fallback ''Internal server error occurred during analysis''
                      env rq talent careerPath (tryAnalysis analyze pf env)
                      (ListDocuments (talentId rq) # calls))))"

definition handler :: "platform \<Rightarrow> env \<Rightarrow> body \<Rightarrow> response \<times> call list" where
  "handler = pipeline analyzeCVContent generateFallbackAnalysis"

definition handler_part_000 :: "platform \<Rightarrow> env \<Rightarrow> body \<Rightarrow> response \<times> call list" where
  "handler_part_000 =
     pipeline analyzeCVContent_part_000
       (\<lambda>talent careerPath. Inr (generateFallbackAnalysis_part_000 talent careerPath))"

subsection \<open>part_001\<close>

text \<open>No test of the key and none of the size.\<close>

definition preflight_part_001 :: "env \<Rightarrow> body \<Rightarrow> response + request" where
  "preflight_part_001 env b =
     (case b of
        Malformed \<Rightarrow> Inl (failure 400 ''Invalid JSON input'')
      | Nullish \<Rightarrow> Inl (internalError env ''Internal server error'')
      | Payload rq \<Rightarrow>
          if talentId rq = [] \<or> fileData rq = [] \<or> fileName rq = []
          then Inl (failure 400 ''Missing required parameters: talentId, fileData, fileName'')
          else if fileExtension (fileName rq) \<notin> set allowedExtensions
          then Inl (failure 400
            ''Unsupported file type. Please upload PDF, DOC, DOCX, or image files.'')
          else Inr rq)"

definition fetchTalent_part_001 :: "env \<Rightarrow> string \<Rightarrow> response + talent" where
  "fetchTalent_part_001 env tid =
     (case listDocuments env tid of
        Inl e \<Rightarrow> Inl (failure 500 ''Failed to fetch talent information'')
      | Inr [] \<Rightarrow> Inl (failure 404 ''Talent not found'')
      | Inr (talent # others) \<Rightarrow> Inr talent)"

definition extractTextFromCV_part_001 :: "env \<Rightarrow> error + string" where
  "extractTextFromCV_part_001 env = rethrow ''Failed to extract text from CV: '' (extractReply env)"

text \<open>Here a failed staging leaves the inner \<open>try\<close> at once, and the handler tests the length.\<close>

definition tryAnalysis_part_001 :: "platform \<Rightarrow> env \<Rightarrow> string \<times> (error + jsval) \<times> call list" where
  "tryAnalysis_part_001 pf env =
     (case createFile env of
        Inl e \<Rightarrow> ([], Inl e, [CreateFile])
      | Inr uploadedFileId \<Rightarrow>
          (case extractTextFromCV_part_001 env of
             Inl e \<Rightarrow> (uploadedFileId, Inl e, [CreateFile, GenerateFromFile])
           | Inr cvText \<Rightarrow>
               if cvText = [] \<or> length (trim cvText) < 50
               then (uploadedFileId, Inl (Error ''Could not extract sufficient text from CV''),
                     [CreateFile, GenerateFromFile])
               else (uploadedFileId, analyzeCVContent_part_001 pf (analysisReply env),
                     [CreateFile, GenerateFromFile, GenerateFromText])))"

definition handler_part_001 :: "platform \<Rightarrow> env \<Rightarrow> body \<Rightarrow> response \<times> call list" where
  "handler_part_001 pf env b =
     (case preflight_part_001 env b of
        Inl r \<Rightarrow> (r, [])
      | Inr rq \<Rightarrow>
          (case fetchTalent_part_001 env (talentId rq) of
             Inl r \<Rightarrow> (r, [ListDocuments (talentId rq)])
           | Inr talent \<Rightarrow>
               (case fetchCareerPath env talent of
                  (careerPath, calls) \<Rightarrow>
                    conclude
                      (\<lambda>talent careerPath. Inr (generateFallbackAnalysis_part_001 talent careerPath))
                      ''Internal server error''
                      env rq talent careerPath (tryAnalysis_part_001 pf env)
                      (ListDocuments (talentId rq) # calls))))"

text \<open>How often a handler tried to release a staged file.\<close>

definition releases :: "call list \<Rightarrow> nat" where
  "releases calls = length (filter (\<lambda>c. case c of DeleteFile f ok \<Rightarrow> True | _ \<Rightarrow> False) calls)"

section \<open>Reading a report\<close>

text \<open>The strings of an array of strings at a path, and the own keys of an object at a path.\<close>

fun asString :: "jsval \<Rightarrow> string option" where
  "asString (JStr s) = Some s"
| "asString v = None"

definition stringsAt :: "jsval \<Rightarrow> string list \<Rightarrow> string list option" where
  "stringsAt v path =
     (case getPath v path of Some (JArr xs) \<Rightarrow> those (map asString xs) | _ \<Rightarrow> None)"

definition keysAt :: "jsval \<Rightarrow> string list \<Rightarrow> string list option" where
  "keysAt v path = (case getPath v path of Some (JObj kvs) \<Rightarrow> Some (map fst kvs) | _ \<Rightarrow> None)"

text \<open>The seven keys of the alignment record, and the four sequences compared in it.\<close>

definition alignmentKeys :: "string list" where
  "alignmentKeys =
     [''alignmentScore'', ''matchingSkills'', ''missingSkills'', ''matchingCertifications'',
      ''missingCertifications'', ''relevantExperience'', ''additionalRequirements'']"

text \<open>What the specification asks of the alignment record of a report without a career path.\<close>

definition zeroAlignment :: "jsval \<Rightarrow> bool" where
  "zeroAlignment r \<longleftrightarrow>
     getPath r [''careerPathAlignment'', ''alignmentScore''] = Some (JNum 0) \<and>
     stringsAt r [''careerPathAlignment'', ''matchingSkills''] = Some [] \<and>
     stringsAt r [''careerPathAlignment'', ''missingSkills''] = Some [] \<and>
     stringsAt r [''careerPathAlignment'', ''matchingCertifications''] = Some [] \<and>
     stringsAt r [''careerPathAlignment'', ''missingCertifications''] = Some []"


text \<open>A refusal with status 400 that carries no report and came before any call.\<close>

definition rejected400 :: "response \<times> call list \<Rightarrow> bool" where
  "rejected400 out \<longleftrightarrow>
     success (fst out) = False \<and> statusCode (fst out) = 400 \<and> analysis (fst out) = None \<and>
     snd out = []"

text \<open>
  What the \<open>catch\<close> of a handler answers when the response goes out: the success response
  with the fallback report, or the 500 of the outer \<open>catch\<close> when the builder throws.
\<close>

definition fallbackResponse ::
  "(talent \<Rightarrow> careerPath option \<Rightarrow> error + jsval) \<Rightarrow> string \<Rightarrow> env \<Rightarrow> request \<Rightarrow> talent
     \<Rightarrow> response" where
  "fallbackResponse fallback msg env rq talent =
     (case fetchCareerPath env talent of
        (careerPath, calls) \<Rightarrow>
          (case fallback talent careerPath of
             Inl thrown \<Rightarrow> internalError env msg
           | Inr r \<Rightarrow> report env rq talent careerPath r True))"




section \<open>Example inputs\<close>

text \<open>A platform for examples: its parser knows one text, and it converts nothing.\<close>

definition examplePlatform :: "string \<Rightarrow> obj \<Rightarrow> platform" where
  "examplePlatform known parsed =
     \<lparr>jsonParse = (\<lambda>s. if s = known then Inr parsed else Inl (Error ''Unexpected token'')),
      coerceNumber = (\<lambda>v. None)\<rparr>"

definition exampleTalent :: talent where
  "exampleTalent =
     \<lparr>docId = ''doc1'', fullname = ''Ama Mensah'', careerStage = ''Trailblazer'',
      skills = [''React'', ''SQL''], certifications = [''AWS Developer''],
      selectedPath = ''path1''\<rparr>"

definition exampleCareerPath :: careerPath where
  "exampleCareerPath =
     \<lparr>pathId = ''path1'', title = ''Backend Engineer'',
      requiredSkills = [''SQL'', ''Docker''],
      requiredCertifications = [''AWS Developer'', ''CKA'']\<rparr>"

definition exampleRequest :: request where
  "exampleRequest = \<lparr>talentId = ''t1'', fileData = ''JVBERi0xLjQ='', fileName = ''resume.PDF''\<rparr>"

text \<open>An environment in which every collaborator answers; the model's replies vary.\<close>

definition exampleEnv :: "error + string \<Rightarrow> error + string \<Rightarrow> env" where
  "exampleEnv extraction reply =
     \<lparr>apiKey = True,
      listDocuments = (\<lambda>tid. if tid = ''t1'' then Inr [exampleTalent] else Inr []),
      getDocument = (\<lambda>i. if i = ''path1'' then Inr exampleCareerPath
                           else Inl (Error ''Document not found'')),
      createFile = Inr ''file1'',
      deleteFile = (\<lambda>f. True),
      extractReply = extraction,
      analysisReply = reply,
      respond = True,
      startTime = 1000,
      endTime = 1420,
      timestamp = ''2025-01-01T00:00:00.000Z''\<rparr>"

definition exampleText :: string where
  "exampleText = ''Ama Mensah. Backend engineer, four years of SQL and React work.''"

definition unconfiguredEnv :: env where
  "unconfiguredEnv = (exampleEnv (Inr exampleText) (Inr ''{}''))\<lparr>apiKey := False\<rparr>"

definition executableRequest :: request where
  "executableRequest = exampleRequest\<lparr>fileName := ''resume.exe''\<rparr>"

definition oversizedRequest :: request where
  "oversizedRequest = exampleRequest\<lparr>fileData := replicate 7000000 CHR ''A''\<rparr>"

text \<open>
  A reply of the model with the eight fields main.js requires, two scores out of range and
  one that is no integer, and the object \<open>JSON.parse\<close> makes of it.
\<close>

definition goodReply :: string where
  \<open>goodReply = ''{"overallScore": 150, "careerStageAlignment": {"alignmentScore": -5}, "strengths": ["SQL"], "weaknesses": ["No Docker"], "profileVsCvGaps": {"missingFromCV": []}, "recommendations": ["Learn Docker"], "nextSteps": ["Get CKA"], "marketability": {"score": 78.5}}''\<close>

definition goodReport :: obj where
  "goodReport =
     [(''overallScore'', JNum 150),
      (''careerStageAlignment'', JObj [(''alignmentScore'', JNum (- 5))]),
      (''strengths'', JArr [JStr ''SQL'']),
      (''weaknesses'', JArr [JStr ''No Docker'']),
      (''profileVsCvGaps'', JObj [(''missingFromCV'', JArr [])]),
      (''recommendations'', JArr [JStr ''Learn Docker'']),
      (''nextSteps'', JArr [JStr ''Get CKA'']),
      (''marketability'', JObj [(''score'', JNum 78.5)])]"

definition goodPlatform :: platform where
  "goodPlatform = examplePlatform goodReply goodReport"

text \<open>The staging fails, the model answers both requests.\<close>

definition stagingFailsEnv :: env where
  "stagingFailsEnv =
     (exampleEnv (Inr exampleText) (Inr goodReply))\<lparr>createFile := Inl (Error ''Storage unavailable'')\<rparr>"

text \<open>The model fails at the extraction, and sending the response throws.\<close>

definition throwingEnv :: env where
  "throwingEnv = (exampleEnv (Inl (Error ''Model overloaded'')) (Inr ''{}''))\<lparr>respond := False\<rparr>"

text \<open>The model fails at the extraction; everything else answers.\<close>

definition extractionFailsEnv :: env where
  "extractionFailsEnv = exampleEnv (Inl (Error ''Model overloaded'')) (Inr ''{}'')"

text \<open>
  A reply with every field that a handler or the specification asks for, and the overall
  score zero.
\<close>

definition zeroReply :: string where
  \<open>zeroReply = ''{"overallScore": 0, "careerStageAlignment": {"alignmentScore": 10}, "strengths": ["SQL"], "weaknesses": ["No Docker"], "profileVsCvGaps": {"missingFromCV": []}, "careerPathAlignment": {"alignmentScore": 5}, "recommendations": ["Learn Docker"], "nextSteps": ["Get CKA"], "marketability": {"score": 3}}''\<close>

definition zeroReport :: obj where
  "zeroReport =
     [(''overallScore'', JNum 0),
      (''careerStageAlignment'', JObj [(''alignmentScore'', JNum 10)]),
      (''strengths'', JArr [JStr ''SQL'']),
      (''weaknesses'', JArr [JStr ''No Docker'']),
      (''profileVsCvGaps'', JObj [(''missingFromCV'', JArr [])]),
      (''careerPathAlignment'', JObj [(''alignmentScore'', JNum 5)]),
      (''recommendations'', JArr [JStr ''Learn Docker'']),
      (''nextSteps'', JArr [JStr ''Get CKA'']),
      (''marketability'', JObj [(''score'', JNum 3)])]"

definition zeroPlatform :: platform where
  "zeroPlatform = examplePlatform zeroReply zeroReport"




definition listedFields :: "string list" where
  "listedFields =
     [''overallScore'', ''strengths'', ''weaknesses'', ''profileVsCvGaps'',
      ''careerPathAlignment'', ''recommendations'', ''nextSteps'', ''marketability'']"

text \<open>
  A profile whose stage label names an inherited property of an object, and an environment
  that lists it while the model fails at the extraction.
\<close>

definition inheritedTalent :: talent where
  "inheritedTalent = exampleTalent\<lparr>careerStage := ''constructor''\<rparr>"

definition inheritedStageEnv :: env where
  "inheritedStageEnv = extractionFailsEnv\<lparr>listDocuments := (\<lambda>tid. Inr [inheritedTalent])\<rparr>"

section \<open>Facts about the string built-ins\<close>

lemma indexOf_ge: "- 1 \<le> indexOf s c"
  by (induction s) (auto simp: Let_def)

lemma lastIndexOf_ge: "- 1 \<le> lastIndexOf s c"
  by (induction s) (auto simp: Let_def)

lemma indexOf_neg_iff: "indexOf s c = - 1 \<longleftrightarrow> c \<notin> set s"
proof (induction s)
  case Nil
  then show ?case by simp
next
  case (Cons x xs)
  have "- 1 \<le> indexOf xs c" by (rule indexOf_ge)
  with Cons show ?case by (auto simp: Let_def)
qed

lemma lastIndexOf_neg_iff: "lastIndexOf s c = - 1 \<longleftrightarrow> c \<notin> set s"
proof (induction s)
  case Nil
  then show ?case by simp
next
  case (Cons x xs)
  have "- 1 \<le> lastIndexOf xs c" by (rule lastIndexOf_ge)
  with Cons show ?case by (auto simp: Let_def)
qed

lemma indexOf_nonneg: "c \<in> set s \<Longrightarrow> 0 \<le> indexOf s c"
  using indexOf_ge [of s c] indexOf_neg_iff [of s c] by linarith

lemma lastIndexOf_nonneg: "c \<in> set s \<Longrightarrow> 0 \<le> lastIndexOf s c"
  using lastIndexOf_ge [of s c] lastIndexOf_neg_iff [of s c] by linarith

lemma indexOf_append: "c \<notin> set A \<Longrightarrow> indexOf (A @ c # r) c = int (length A)"
  by (induction A) (auto simp: Let_def)

lemma lastIndexOf_append: "c \<notin> set B \<Longrightarrow> lastIndexOf (X @ c # B) c = int (length X)"
proof (induction X)
  case Nil
  then have "lastIndexOf B c = - 1" by (simp add: lastIndexOf_neg_iff)
  then show ?case by simp
next
  case (Cons x X)
  then show ?case by (simp add: Let_def)
qed

lemma noBracePair_iff: "noBracePair s \<longleftrightarrow> \<not> closesAfterOpen s"
proof (induction s)
  case Nil
  then show ?case by (simp add: noBracePair_def closesAfterOpen_def)
next
  case (Cons x xs)
  have a: "- 1 \<le> indexOf xs CHR ''{''" by (rule indexOf_ge)
  have b: "- 1 \<le> lastIndexOf xs CHR ''}''" by (rule lastIndexOf_ge)
  show ?case
  proof (cases "x = CHR ''{''")
    case True
    then show ?thesis using b lastIndexOf_nonneg [of "CHR ''}''" xs]
      by (auto simp: noBracePair_def closesAfterOpen_def Let_def lastIndexOf_neg_iff)
  next
    case False
    then show ?thesis
      using Cons a b lastIndexOf_nonneg [of "CHR ''}''" xs] indexOf_nonneg [of "CHR ''{''" xs]
      by (auto simp: noBracePair_def closesAfterOpen_def Let_def lastIndexOf_neg_iff indexOf_neg_iff)
  qed
qed

lemma closesAfterOpen_filter: "closesAfterOpen (filter isBrace s) = closesAfterOpen s"
  by (induction s) (auto simp: closesAfterOpen_def isBrace_def)

lemma dropWhile_separator:
  "\<not> Q c \<Longrightarrow> dropWhile Q (xs @ c # v) = dropWhile Q xs @ c # v"
  by (induction xs) auto

lemma filter_dropWhile_other:
  "(\<And>x. P x \<Longrightarrow> \<not> Q x) \<Longrightarrow> filter P (dropWhile Q xs) = filter P xs"
  by (induction xs) auto

lemma notin_filter_eq: "(c \<notin> set xs) = (filter (\<lambda>x. x = c) xs = [])"
  by (auto simp: filter_empty_conv)

lemma trim_filter:
  assumes "\<And>x. P x \<Longrightarrow> \<not> isSpace x"
  shows "filter P (trim s) = filter P s"
  using assms by (simp add: trim_def filter_dropWhile_other flip: rev_filter)

lemma trim_around:
  assumes "\<not> isSpace c" "\<not> isSpace d"
  shows "trim (A @ c # M @ d # B) = dropWhile isSpace A @ c # M @ d # rev (dropWhile isSpace (rev B))"
proof -
  have 1: "dropWhile isSpace (A @ c # M @ d # B) = dropWhile isSpace A @ c # M @ d # B"
    using assms(1) by (rule dropWhile_separator)
  have 2: "rev (dropWhile isSpace A @ c # M @ d # B) = rev B @ d # rev (dropWhile isSpace A @ c # M)"
    by simp
  have 3: "dropWhile isSpace (rev B @ d # rev (dropWhile isSpace A @ c # M))
      = dropWhile isSpace (rev B) @ d # rev (dropWhile isSpace A @ c # M)"
    using assms(2) by (rule dropWhile_separator)
  show ?thesis unfolding trim_def 1 2 3 by simp
qed

section \<open>Facts about the global replacement\<close>

text \<open>A replacement that only drops or moves other characters keeps the characters of a class.\<close>

lemma replaceAll_filter:
  assumes m: "\<And>s out rest. m s = Some (out, rest) \<Longrightarrow> filter P out @ filter P rest = filter P s"
  shows "filter P (replaceAll m s) = filter P s"
proof (induction s rule: length_induct)
  case (1 s)
  show ?case
  proof (cases s)
    case Nil
    then show ?thesis by simp
  next
    case (Cons c cs)
    have cs: "filter P (replaceAll m cs) = filter P cs"
      using 1 Cons by simp
    show ?thesis
    proof (cases "m (c # cs)")
      case None
      with cs Cons show ?thesis by simp
    next
      case (Some p)
      obtain out rest where p: "p = (out, rest)" by (cases p)
      show ?thesis
      proof (cases "length rest < length (c # cs)")
        case True
        have "filter P (replaceAll m rest) = filter P rest"
          using 1 Cons True by simp
        moreover have "filter P out @ filter P rest = filter P (c # cs)"
          using m [of "c # cs" out rest] Some p by simp
        ultimately show ?thesis using Some p True Cons by simp
      next
        case False
        then show ?thesis using Some p cs Cons by simp
      qed
    qed
  qed
qed

text \<open>The scan treats the text before and after a separating character independently.\<close>

lemma replaceAll_separates:
  assumes sep: "separates m c"
  shows "replaceAll m (u @ c # v) = replaceAll m u @ c # replaceAll m v"
proof (induction u rule: length_induct)
  case (1 u)
  show ?case
  proof (cases u)
    case Nil
    have "m (c # v) = None" using sep by (simp add: separates_def)
    then show ?thesis using Nil by simp
  next
    case (Cons x xs)
    have step: "m ((x # xs) @ c # v) = map_option (\<lambda>(out, rest). (out, rest @ c # v)) (m (x # xs))"
      using sep unfolding separates_def by blast
    have xs: "replaceAll m (xs @ c # v) = replaceAll m xs @ c # replaceAll m v"
      using 1 Cons by simp
    show ?thesis
    proof (cases "m (x # xs)")
      case None
      then show ?thesis using step xs Cons by simp
    next
      case (Some p)
      obtain out rest where p: "p = (out, rest)" by (cases p)
      show ?thesis
      proof (cases "length rest < length (x # xs)")
        case True
        have "replaceAll m (rest @ c # v) = replaceAll m rest @ c # replaceAll m v"
          using 1 Cons True by simp
        then show ?thesis using step Some p True Cons by simp
      next
        case False
        then show ?thesis using step Some p xs Cons by simp
      qed
    qed
  qed
qed

lemma prefix_separator: "c \<notin> set p \<Longrightarrow> prefix p (u @ c # v) \<longleftrightarrow> prefix p u"
  by (auto simp: prefix_append prefix_Cons)

lemma fence_separates:
  assumes "c \<notin> set p" "\<not> isSpace c" "p \<noteq> []" "n = length p"
  shows "separates (\<lambda>s. if prefix p s then Some ([], dropWhile isSpace (drop n s)) else None) c"
proof -
  have a: "\<not> prefix p (c # v)" for v
    using assms by (cases p) (auto simp: prefix_Cons)
  have b: "drop (length p) (u @ c # v) = drop (length p) u @ c # v" if "prefix p u" for u v
    using that by (auto simp: prefix_def)
  show ?thesis
    unfolding separates_def using assms a b
    by (auto simp: prefix_separator dropWhile_separator)
qed

lemma reFenceJson_separates: "c = CHR ''{'' \<or> c = CHR ''}'' \<Longrightarrow> separates reFenceJson c"
  using fence_separates [of c "''```json''" 7]
  by (auto simp: reFenceJson_def [abs_def] isSpace_def)

lemma reFence_separates: "c = CHR ''{'' \<or> c = CHR ''}'' \<Longrightarrow> separates reFence c"
  using fence_separates [of c "''```''" 3]
  by (auto simp: reFence_def [abs_def] isSpace_def)

lemma fence_filter:
  assumes "\<And>x. P x \<Longrightarrow> \<not> isSpace x \<and> x \<notin> set p"
    and "n = length p"
    and "(if prefix p s then Some ([], dropWhile isSpace (drop n s)) else None) = Some (out, rest)"
  shows "filter P out @ filter P rest = filter P s"
proof -
  from assms(2,3) obtain r where s: "s = p @ r" and o: "out = []" and rest: "rest = dropWhile isSpace r"
    by (auto simp: prefix_def split: if_splits)
  have "filter P p = []" using assms(1) by (auto simp: filter_empty_conv)
  moreover have "filter P (dropWhile isSpace r) = filter P r"
    using assms(1) by (intro filter_dropWhile_other) auto
  ultimately show ?thesis using s o rest by simp
qed

lemma stripFences_filter:
  assumes "\<And>x. P x \<Longrightarrow> x = CHR ''{'' \<or> x = CHR ''}''"
  shows "filter P (stripFences s) = filter P s"
proof -
  have P: "\<not> isSpace x \<and> x \<notin> set ''```json'' \<and> x \<notin> set ''```''" if "P x" for x
    using assms [OF that] by (auto simp: isSpace_def)
  have 1: "filter P (replaceAll reFenceJson t) = filter P t" for t
    by (rule replaceAll_filter, rule fence_filter [where p = "''```json''"])
       (use P in \<open>auto simp: reFenceJson_def\<close>)
  have 2: "filter P (replaceAll reFence t) = filter P t" for t
    by (rule replaceAll_filter, rule fence_filter [where p = "''```''"])
       (use P in \<open>auto simp: reFence_def\<close>)
  show ?thesis by (simp add: stripFences_def 1 2)
qed

lemma stripFences_separates:
  assumes "c = CHR ''{'' \<or> c = CHR ''}''"
  shows "stripFences (u @ c # v) = stripFences u @ c # stripFences v"
  using assms
  by (simp add: stripFences_def replaceAll_separates reFenceJson_separates reFence_separates)

section \<open>The sanitizer on a text with and without a pair of braces\<close>

lemma closesAfterOpen_cleaned: "closesAfterOpen (trim (stripFences s)) = closesAfterOpen s"
proof -
  have 1: "filter isBrace (trim x) = filter isBrace x" for x
    by (rule trim_filter) (auto simp: isBrace_def isSpace_def)
  have 2: "filter isBrace (stripFences s) = filter isBrace s"
    by (rule stripFences_filter) (simp add: isBrace_def)
  have "filter isBrace (trim (stripFences s)) = filter isBrace s"
    by (simp only: 1 2)
  then show ?thesis by (metis closesAfterOpen_filter)
qed

lemma extractAndCleanJSON_noBracePair:
  assumes "noBracePair text"
  shows "extractAndCleanJSON text
       = Inl (Error ''Failed to clean JSON: No valid JSON object found in response'')"
proof -
  have "noBracePair (trim (stripFences text))"
    using assms by (simp add: noBracePair_iff closesAfterOpen_cleaned)
  then show ?thesis
    by (simp add: extractAndCleanJSON_def noBracePair_def Let_def)
qed

lemma extractAndCleanJSON_framed:
  assumes A: "CHR ''{'' \<notin> set A" and B: "CHR ''}'' \<notin> set B"
  shows "extractAndCleanJSON (A @ CHR ''{'' # m @ CHR ''}'' # B)
       = Inr (repairJSON (CHR ''{'' # stripFences m @ [CHR ''}'']))"
proof -
  define A' where "A' = dropWhile isSpace (stripFences A)"
  define B' where "B' = rev (dropWhile isSpace (rev (stripFences B)))"
  define M where "M = stripFences m"
  have sA: "CHR ''{'' \<notin> set (stripFences A)"
    using A unfolding notin_filter_eq by (subst stripFences_filter) auto
  have sB: "CHR ''}'' \<notin> set (stripFences B)"
    using B unfolding notin_filter_eq by (subst stripFences_filter) auto
  have A': "CHR ''{'' \<notin> set A'"
    using sA set_dropWhileD unfolding A'_def by fastforce
  have B': "CHR ''}'' \<notin> set B'"
    using sB set_dropWhileD unfolding B'_def by fastforce
  have s: "stripFences (A @ CHR ''{'' # m @ CHR ''}'' # B)
      = stripFences A @ CHR ''{'' # M @ CHR ''}'' # stripFences B"
    by (simp add: stripFences_separates M_def)
  have cleaned: "trim (stripFences (A @ CHR ''{'' # m @ CHR ''}'' # B)) = A' @ CHR ''{'' # M @ CHR ''}'' # B'"
    unfolding s A'_def B'_def by (rule trim_around) (simp_all add: isSpace_def)
  have i: "indexOf (A' @ CHR ''{'' # M @ CHR ''}'' # B') CHR ''{'' = int (length A')"
    using A' by (rule indexOf_append)
  have "lastIndexOf ((A' @ CHR ''{'' # M) @ CHR ''}'' # B') CHR ''}'' = int (length (A' @ CHR ''{'' # M))"
    using B' by (rule lastIndexOf_append)
  then have l: "lastIndexOf (A' @ CHR ''{'' # M @ CHR ''}'' # B') CHR ''}'' = int (length A') + 1 + int (length M)"
    by simp
  have sub: "substring (A' @ CHR ''{'' # M @ CHR ''}'' # B') (int (length A')) (int (length A') + 1 + int (length M) + 1)
      = CHR ''{'' # M @ [CHR ''}'']"
    by (simp add: substring_def nat_add_distrib)
  show ?thesis
    unfolding extractAndCleanJSON_def cleaned Let_def i l sub
    by (simp add: M_def)
qed

lemma closesAfterOpen_split:
  assumes "closesAfterOpen t"
  obtains A m B where "t = A @ CHR ''{'' # m @ CHR ''}'' # B"
    and "CHR ''{'' \<notin> set A" and "CHR ''}'' \<notin> set B"
proof -
  define A where "A = takeWhile (\<lambda>x. x \<noteq> CHR ''{'') t"
  define r where "r = dropWhile (\<lambda>x. x \<noteq> CHR ''{'') t"
  have t: "t = A @ r" by (simp add: A_def r_def)
  have in_r: "CHR ''}'' \<in> set r" using assms by (simp add: closesAfterOpen_def r_def)
  then have "r \<noteq> []" by auto
  then have "hd r = CHR ''{''"
    unfolding r_def using hd_dropWhile [of "\<lambda>x. x \<noteq> CHR ''{''" t] by simp
  with \<open>r \<noteq> []\<close> obtain r' where r: "r = CHR ''{'' # r'" by (cases r) auto
  with in_r have "CHR ''}'' \<in> set r'" by simp
  then obtain m B where r': "r' = m @ CHR ''}'' # B" and B: "CHR ''}'' \<notin> set B"
    by (meson split_list_last)
  have "CHR ''{'' \<notin> set A"
    unfolding A_def by (auto dest: set_takeWhileD)
  with t r r' B that show thesis by blast
qed

text \<open>Text without braces around a response changes nothing.\<close>

lemma extractAndCleanJSON_decorated:
  assumes a: "\<forall>c \<in> set a. \<not> isBrace c" and b: "\<forall>c \<in> set b. \<not> isBrace c"
  shows "extractAndCleanJSON (a @ t @ b) = extractAndCleanJSON t"
proof (cases "closesAfterOpen t")
  case True
  then obtain A m B where t: "t = A @ CHR ''{'' # m @ CHR ''}'' # B"
    and A: "CHR ''{'' \<notin> set A" and B: "CHR ''}'' \<notin> set B"
    by (rule closesAfterOpen_split)
  have aA: "CHR ''{'' \<notin> set (a @ A)" using a A by (auto simp: isBrace_def)
  have Bb: "CHR ''}'' \<notin> set (B @ b)" using b B by (auto simp: isBrace_def)
  have "a @ t @ b = (a @ A) @ CHR ''{'' # m @ CHR ''}'' # (B @ b)"
    by (simp add: t)
  then have "extractAndCleanJSON (a @ t @ b) = Inr (repairJSON (CHR ''{'' # stripFences m @ [CHR ''}'']))"
    using extractAndCleanJSON_framed [OF aA Bb] by simp
  moreover have "extractAndCleanJSON t = Inr (repairJSON (CHR ''{'' # stripFences m @ [CHR ''}'']))"
    unfolding t using A B by (rule extractAndCleanJSON_framed)
  ultimately show ?thesis by simp
next
  case False
  have "filter isBrace a = []" "filter isBrace b = []"
    using a b by (auto simp: filter_empty_conv)
  then have "filter isBrace (a @ t @ b) = filter isBrace t" by simp
  then have "closesAfterOpen (a @ t @ b) = closesAfterOpen t"
    by (metis closesAfterOpen_filter)
  with False have "noBracePair (a @ t @ b)" "noBracePair t"
    by (simp_all add: noBracePair_iff)
  then show ?thesis by (simp add: extractAndCleanJSON_noBracePair)
qed

section \<open>Malformed and decorated responses\<close>

text \<open>
  Claim C7. A response text with no pair of braces, that is with no opening brace, or no
  closing brace, or its first opening brace at or after its last closing brace, makes the
  sanitizer fail, with the one error the function raises for it (the malformed response)
  and no other: the parser is not reached.
\<close>

theorem sanitizeAndParse_no_brace_pair:
  assumes "indexOf text CHR ''{'' = - 1 \<or> lastIndexOf text CHR ''}'' = - 1
         \<or> indexOf text CHR ''{'' \<ge> lastIndexOf text CHR ''}''"
  shows "sanitizeAndParse pf text
       = Inl (Error ''Failed to clean JSON: No valid JSON object found in response'')"
proof -
  have "noBracePair text" using assms by (simp add: noBracePair_def)
  then show ?thesis
    by (simp add: sanitizeAndParse_def extractAndCleanJSON_noBracePair)
qed

theorem sanitizeAndParse_no_brace_pair_witness:
  "indexOf ''} no analysis today {'' CHR ''{'' \<ge> lastIndexOf ''} no analysis today {'' CHR ''}''
   \<and> sanitizeAndParse (examplePlatform ''{}'' []) ''} no analysis today {''
     = Inl (Error ''Failed to clean JSON: No valid JSON object found in response'')"
  using sanitizeAndParse_no_brace_pair
    [of "''} no analysis today {''" "examplePlatform ''{}'' []"]
  by (simp add: Let_def)

text \<open>
  Claim C8. A structured text wrapped in the markers of a fenced code block and put between
  prose without braces is sanitized and parsed to the same value as the bare text. It holds
  for every text, so for every minimal valid one.
\<close>

theorem sanitizeAndParse_decorated:
  assumes "\<forall>c \<in> set prose1. c \<noteq> CHR ''{'' \<and> c \<noteq> CHR ''}''"
    and "\<forall>c \<in> set prose2. c \<noteq> CHR ''{'' \<and> c \<noteq> CHR ''}''"
  shows "sanitizeAndParse pf (prose1 @ ''```json'' @ [CHR 0x0A] @ t @ [CHR 0x0A] @ ''```'' @ prose2)
       = sanitizeAndParse pf t"
proof -
  have a: "\<forall>c \<in> set (prose1 @ ''```json'' @ [CHR 0x0A]). \<not> isBrace c"
    using assms(1) by (auto simp: isBrace_def)
  have b: "\<forall>c \<in> set ([CHR 0x0A] @ ''```'' @ prose2). \<not> isBrace c"
    using assms(2) by (auto simp: isBrace_def)
  have "extractAndCleanJSON ((prose1 @ ''```json'' @ [CHR 0x0A]) @ t @ ([CHR 0x0A] @ ''```'' @ prose2))
      = extractAndCleanJSON t"
    using a b by (rule extractAndCleanJSON_decorated)
  then show ?thesis by (simp add: sanitizeAndParse_def)
qed

theorem sanitizeAndParse_decorated_witness:
  \<open>sanitizeAndParse (examplePlatform ''{"overallScore": 85}'' [(''overallScore'', JNum 85)])
     (''Here is the analysis: '' @ ''```json'' @ [CHR 0x0A] @ ''{"overallScore": 85}''
        @ [CHR 0x0A] @ ''```'' @ '' I hope it helps.'')
   = Inr [(''overallScore'', JNum 85)]\<close>
proof -
  have bare: \<open>sanitizeAndParse (examplePlatform ''{"overallScore": 85}'' [(''overallScore'', JNum 85)])
      ''{"overallScore": 85}'' = Inr [(''overallScore'', JNum 85)]\<close>
    by (simp add: sanitizeAndParse_def extractAndCleanJSON_def stripFences_def trim_def
        reFence_def reFenceJson_def isSpace_def Let_def substring_def repairJSON_def
        reTrailingComma_def reBareKey_def reSingleQuoted_def reSpaces_def newlineToSpace_def
        isWord_def examplePlatform_def)
  show ?thesis
    using sanitizeAndParse_decorated
      [of \<open>''Here is the analysis: ''\<close> \<open>'' I hope it helps.''\<close>
          \<open>examplePlatform ''{"overallScore": 85}'' [(''overallScore'', JNum 85)]\<close>
          \<open>''{"overallScore": 85}''\<close>]
      bare
    by simp
qed

section \<open>The fallback report\<close>




text \<open>The builder of main.js throws exactly for a stage label that names an inherited property.\<close>

lemma generateFallbackAnalysis_throws:
  "isl (generateFallbackAnalysis talent careerPath) \<longleftrightarrow> careerStage talent \<in> set inheritedNames"
  by (auto simp: generateFallbackAnalysis_def stageSpecificContent_def inheritedNames_def)

lemma generateFallbackAnalysis_Inr:
  "generateFallbackAnalysis talent careerPath = Inr r
   \<Longrightarrow> \<exists>stageContent. r = fallbackReport stageContent talent careerPath"
  by (auto simp: generateFallbackAnalysis_def split: stageEntry.splits)

lemma generateFallbackAnalysis_returns:
  assumes "careerStage talent \<notin> set inheritedNames"
  shows "\<exists>stageContent. generateFallbackAnalysis talent careerPath
           = Inr (fallbackReport stageContent talent careerPath)"
proof -
  have "\<not> isl (generateFallbackAnalysis talent careerPath)"
    using assms by (simp only: generateFallbackAnalysis_throws not_False_eq_True)
  then obtain r where r: "generateFallbackAnalysis talent careerPath = Inr r"
    by (cases "generateFallbackAnalysis talent careerPath") auto
  then show ?thesis using generateFallbackAnalysis_Inr [OF r] by auto
qed



lemma exampleTalent_stage: "careerStage exampleTalent \<notin> set inheritedNames"
  by (simp add: exampleTalent_def inheritedNames_def)

lemma generateFallbackAnalysis_example:
  "generateFallbackAnalysis exampleTalent careerPath
     = Inr (fallbackReport trailblazerContent exampleTalent careerPath)"
  by (simp add: generateFallbackAnalysis_def stageSpecificContent_def exampleTalent_def)


text \<open>
  Without a career path, main.js and part_000 give the alignment record the score zero,
  four empty sequences and the seven keys it has with a career path.
\<close>

lemma generateFallbackAnalysis_no_career_path:
  "zeroAlignment (fallbackReport stageContent talent None) \<and>
   keysAt (fallbackReport stageContent talent None) [''careerPathAlignment'']
     = keysAt (fallbackReport stageContent talent (Some cp)) [''careerPathAlignment''] \<and>
   zeroAlignment (generateFallbackAnalysis_part_000 talent None) \<and>
   keysAt (generateFallbackAnalysis_part_000 talent None) [''careerPathAlignment'']
     = keysAt (generateFallbackAnalysis_part_000 talent (Some cp)) [''careerPathAlignment'']"
  by (simp add: zeroAlignment_def keysAt_def stringsAt_def strs_def comparedAlignment_def
      fallbackReport_def generateFallbackAnalysis_part_000_def)

text \<open>
  Claim C5 asks of every fallback report without a career path an alignment record with
  the score zero, four empty sequences and the keys it has with a career path. In part_001
  it fails, for every profile: there the record has the score zero and a message and none
  of the four sequences, while with a career path it has the seven keys.
\<close>

theorem generateFallbackAnalysis_part_001_no_career_path:
  "keysAt (generateFallbackAnalysis_part_001 talent None) [''careerPathAlignment'']
     = Some [''alignmentScore'', ''message''] \<and>
   keysAt (generateFallbackAnalysis_part_001 talent (Some cp)) [''careerPathAlignment'']
     = Some alignmentKeys \<and>
   stringsAt (generateFallbackAnalysis_part_001 talent None)
     [''careerPathAlignment'', ''matchingSkills''] = None \<and>
   \<not> zeroAlignment (generateFallbackAnalysis_part_001 talent None)"
  by (simp add: zeroAlignment_def keysAt_def stringsAt_def strs_def comparedAlignment_def
      generateFallbackAnalysis_part_001_def alignmentKeys_def)

section \<open>The checks before any call\<close>

lemma failure_400_rejected: "rejected400 (failure 400 msg, [])"
  by (simp add: rejected400_def failure_def)

lemma pipeline_rejected:
  assumes "apiKey env"
    and "fileExtension (fileName rq) \<notin> set allowedExtensions
         \<or> real (length (fileData rq)) * 3 / 4 > 5 * 1024 * 1024"
  shows "rejected400 (pipeline analyze fallback pf env (Payload rq))"
proof -
  have "\<exists>msg. preflight env (Payload rq) = Inl (failure 400 msg)"
    using assms by (auto simp: preflight_def)
  then obtain msg where "preflight env (Payload rq) = Inl (failure 400 msg)" ..
  then show ?thesis
    by (simp add: pipeline_def failure_400_rejected)
qed

lemma handler_part_001_rejected:
  assumes "fileExtension (fileName rq) \<notin> set allowedExtensions"
  shows "rejected400 (handler_part_001 pf env (Payload rq))"
proof -
  have "\<exists>msg. preflight_part_001 env (Payload rq) = Inl (failure 400 msg)"
    using assms by (auto simp: preflight_part_001_def)
  then obtain msg where "preflight_part_001 env (Payload rq) = Inl (failure 400 msg)" ..
  then show ?thesis
    by (simp add: handler_part_001_def failure_400_rejected)
qed

lemma snd_conclude:
  "\<exists>more. snd (conclude fallback msg env rq talent careerPath attempt earlier) = earlier @ more"
  by (cases attempt) (auto simp: conclude_def Let_def split: sum.splits)

lemma handler_part_001_admitted:
  assumes "talentId rq \<noteq> []" and "fileData rq \<noteq> []" and "fileName rq \<noteq> []"
    and "fileExtension (fileName rq) \<in> set allowedExtensions"
  shows "\<exists>more. snd (handler_part_001 pf env (Payload rq)) = ListDocuments (talentId rq) # more"
proof -
  have pre: "preflight_part_001 env (Payload rq) = Inr rq"
    using assms by (simp add: preflight_part_001_def)
  show ?thesis
  proof (cases "fetchTalent_part_001 env (talentId rq)")
    case (Inl r)
    then show ?thesis by (simp add: handler_part_001_def pre)
  next
    case (Inr talent)
    obtain careerPath calls where cp: "fetchCareerPath env talent = (careerPath, calls)"
      by (cases "fetchCareerPath env talent")
    show ?thesis
      using snd_conclude
        [of "\<lambda>talent careerPath. Inr (generateFallbackAnalysis_part_001 talent careerPath)"
          "''Internal server error''" env rq talent careerPath "tryAnalysis_part_001 pf env"
          "ListDocuments (talentId rq) # calls"]
      by (auto simp: handler_part_001_def pre Inr cp)
  qed
qed

text \<open>
  Claim C9. A request whose file name has an extension outside the list, compared in lower
  case, is refused with status 400 and no report before any call to a store or to the
  model, by each of the three handlers, once the key of the model is configured. main.js
  and part_000 refuse in the same way a request whose size, taken as three quarters of the
  encoded length, is above 5 MiB. part_001 has no test of the size: a complete request with
  a listed extension is admitted whatever its size, and the handler goes on to query the
  store for the profile.
\<close>

theorem oversized_admitted_by_part_001:
  assumes "apiKey env"
  shows "(fileExtension (fileName rq) \<notin> set allowedExtensions
          \<longrightarrow> rejected400 (handler pf env (Payload rq))
              \<and> rejected400 (handler_part_000 pf env (Payload rq))
              \<and> rejected400 (handler_part_001 pf env (Payload rq)))
       \<and> (real (length (fileData rq)) * 3 / 4 > 5 * 1024 * 1024
          \<longrightarrow> rejected400 (handler pf env (Payload rq))
              \<and> rejected400 (handler_part_000 pf env (Payload rq))
              \<and> (talentId rq \<noteq> [] \<and> fileName rq \<noteq> []
                   \<and> fileExtension (fileName rq) \<in> set allowedExtensions
                 \<longrightarrow> \<not> rejected400 (handler_part_001 pf env (Payload rq))
                     \<and> (\<exists>more. snd (handler_part_001 pf env (Payload rq))
                           = ListDocuments (talentId rq) # more)))"
proof (intro conjI impI)
  assume "fileExtension (fileName rq) \<notin> set allowedExtensions"
  then show "rejected400 (handler pf env (Payload rq))"
    "rejected400 (handler_part_000 pf env (Payload rq))"
    "rejected400 (handler_part_001 pf env (Payload rq))"
    using assms
    by (simp_all add: handler_def handler_part_000_def pipeline_rejected handler_part_001_rejected)
next
  assume size: "real (length (fileData rq)) * 3 / 4 > 5 * 1024 * 1024"
  then show "rejected400 (handler pf env (Payload rq))"
    "rejected400 (handler_part_000 pf env (Payload rq))"
    using assms by (simp_all add: handler_def handler_part_000_def pipeline_rejected)
  assume rest: "talentId rq \<noteq> [] \<and> fileName rq \<noteq> []
    \<and> fileExtension (fileName rq) \<in> set allowedExtensions"
  have data: "fileData rq \<noteq> []" using size by auto
  from handler_part_001_admitted [of rq pf env] rest data
  show more: "\<exists>more. snd (handler_part_001 pf env (Payload rq)) = ListDocuments (talentId rq) # more"
    by simp
  then show "\<not> rejected400 (handler_part_001 pf env (Payload rq))"
    by (auto simp: rejected400_def)
qed

lemma fileExtension_resume: "fileExtension ''resume.PDF'' = ''.pdf''"
  by code_simp

theorem oversized_admitted_by_part_001_witness:
  "apiKey (exampleEnv (Inr exampleText) (Inr ''{}'')) \<and>
   fileExtension (fileName executableRequest) \<notin> set allowedExtensions \<and>
   rejected400 (handler_part_001 (examplePlatform ''{}'' []) (exampleEnv (Inr exampleText) (Inr ''{}''))
     (Payload executableRequest)) \<and>
   real (length (fileData oversizedRequest)) * 3 / 4 > 5 * 1024 * 1024 \<and>
   talentId oversizedRequest \<noteq> [] \<and> fileName oversizedRequest \<noteq> [] \<and>
   fileExtension (fileName oversizedRequest) \<in> set allowedExtensions \<and>
   rejected400 (handler (examplePlatform ''{}'' []) (exampleEnv (Inr exampleText) (Inr ''{}''))
     (Payload oversizedRequest)) \<and>
   rejected400 (handler_part_000 (examplePlatform ''{}'' []) (exampleEnv (Inr exampleText) (Inr ''{}''))
     (Payload oversizedRequest)) \<and>
   \<not> rejected400 (handler_part_001 (examplePlatform ''{}'' []) (exampleEnv (Inr exampleText) (Inr ''{}''))
     (Payload oversizedRequest))"
proof -
  have key: "apiKey (exampleEnv (Inr exampleText) (Inr ''{}''))"
    by (simp add: exampleEnv_def)
  have ext: "fileExtension (fileName executableRequest) \<notin> set allowedExtensions"
    by (simp add: executableRequest_def exampleRequest_def fileExtension_def toLowerCase_def
        allowedExtensions_def Let_def)
  have size: "real (length (fileData oversizedRequest)) * 3 / 4 > 5 * 1024 * 1024"
    by (simp add: oversizedRequest_def exampleRequest_def)
  have rest: "talentId oversizedRequest \<noteq> []" "fileName oversizedRequest \<noteq> []"
    "fileExtension (fileName oversizedRequest) \<in> set allowedExtensions"
    by (simp_all add: oversizedRequest_def exampleRequest_def fileExtension_resume
        allowedExtensions_def)
  show ?thesis
    using oversized_admitted_by_part_001
        [OF key, of executableRequest "examplePlatform ''{}'' []"]
      oversized_admitted_by_part_001
        [OF key, of oversizedRequest "examplePlatform ''{}'' []"]
      key ext size rest
    by simp
qed
section \<open>The handlers once the profile is fetched\<close>

lemma pipeline_fetched:
  assumes "preflight env b = Inr rq" and "fetchTalent env (talentId rq) = Inr talent"
  shows "pipeline analyze fallback pf env b
       = conclude fallback ''Internal server error occurred during analysis'' env rq talent
           (fst (fetchCareerPath env talent)) (tryAnalysis analyze pf env)
           (ListDocuments (talentId rq) # snd (fetchCareerPath env talent))"
  using assms by (simp add: pipeline_def split: prod.splits)

lemma handler_part_001_fetched:
  assumes "preflight_part_001 env b = Inr rq"
    and "fetchTalent_part_001 env (talentId rq) = Inr talent"
  shows "handler_part_001 pf env b
       = conclude (\<lambda>talent careerPath. Inr (generateFallbackAnalysis_part_001 talent careerPath))
           ''Internal server error'' env rq talent
           (fst (fetchCareerPath env talent)) (tryAnalysis_part_001 pf env)
           (ListDocuments (talentId rq) # snd (fetchCareerPath env talent))"
  using assms by (simp add: handler_part_001_def split: prod.splits)

lemma fst_conclude:
  "fst (conclude fallback msg env rq talent cp attempt earlier)
     = (case (case fst (snd attempt) of Inr a \<Rightarrow> Inr a | Inl e \<Rightarrow> fallback talent cp) of
          Inl thrown \<Rightarrow> internalError env msg
        | Inr r \<Rightarrow>
            if respond env then report env rq talent cp r (isl (fst (snd attempt)))
            else internalError env msg)"
  by (cases attempt) (simp add: conclude_def Let_def split: sum.splits)

lemma fst_conclude_analysed:
  assumes "fst (snd attempt) = Inr a"
  shows "fst (conclude fallback msg env rq talent cp attempt earlier)
       = (if respond env then report env rq talent cp a False else internalError env msg)"
  by (simp add: fst_conclude assms)

lemma fst_conclude_fallback:
  assumes "fst (snd attempt) = Inl e"
  shows "fst (conclude fallback msg env rq talent cp attempt earlier)
       = (case fallback talent cp of
            Inl thrown \<Rightarrow> internalError env msg
          | Inr r \<Rightarrow> if respond env then report env rq talent cp r True
                     else internalError env msg)"
  by (simp add: fst_conclude assms split: sum.splits)

text \<open>The response goes out when no exception leaves the inner \<open>catch\<close> and the reply is sent.\<close>

lemma success_conclude:
  "success (fst (conclude fallback msg env rq talent cp attempt earlier))
     \<longleftrightarrow> respond env \<and> (isl (fst (snd attempt)) \<longrightarrow> \<not> isl (fallback talent cp))"
  by (cases "fst (snd attempt)"; cases "fallback talent cp")
    (simp_all add: fst_conclude report_def internalError_def)

lemma releases_append: "releases (xs @ ys) = releases xs + releases ys"
  by (simp add: releases_def)

lemma releases_ListDocuments: "releases (ListDocuments tid # calls) = releases calls"
  by (simp add: releases_def)

lemma releases_releaseFile: "releases (releaseFile env fileId) = (if fileId = [] then 0 else 1)"
  by (simp add: releases_def releaseFile_def)

lemma releases_conclude:
  "releases (snd (conclude fallback msg env rq talent cp attempt earlier))
     = releases earlier + releases (snd (snd attempt))
       + (if fst attempt = [] then 0
          else if success (fst (conclude fallback msg env rq talent cp attempt earlier)) then 1
          else 2)"
  by (cases attempt)
    (simp add: conclude_def Let_def releases_append releases_releaseFile report_def
      internalError_def split: sum.splits)

lemma releases_fetchCareerPath: "releases (snd (fetchCareerPath env talent)) = 0"
  by (simp add: fetchCareerPath_def releases_def split: sum.splits)

lemma tryAnalysis_fileId:
  "fst (tryAnalysis analyze pf env) = (case createFile env of Inl e \<Rightarrow> [] | Inr fileId \<Rightarrow> fileId)"
  by (simp add: tryAnalysis_def Let_def split: sum.splits)

lemma tryAnalysis_outcome:
  "fst (snd (tryAnalysis analyze pf env))
     = (case extractTextFromCV env of
          Inl e \<Rightarrow> Inl e
        | Inr cvText \<Rightarrow> analyze pf (analysisReply env))"
  by (simp add: tryAnalysis_def Let_def split: sum.splits)

lemma tryAnalysis_releases: "releases (snd (snd (tryAnalysis analyze pf env))) = 0"
  by (simp add: tryAnalysis_def Let_def releases_def split: sum.splits)

text \<open>The staged file is released once when the response goes out, and twice when not.\<close>

lemma pipeline_releases:
  assumes "preflight env b = Inr rq" and "fetchTalent env (talentId rq) = Inr talent"
    and "createFile env = Inr fileId" and "fileId \<noteq> []"
  shows "releases (snd (pipeline analyze fallback pf env b))
       = (if success (fst (pipeline analyze fallback pf env b)) then 1 else 2)"
  unfolding pipeline_fetched [OF assms(1,2)] releases_conclude tryAnalysis_fileId
    tryAnalysis_releases
  using assms(3,4) by (simp add: releases_fetchCareerPath releases_ListDocuments)

lemma pipeline_success:
  assumes "preflight env b = Inr rq" and "fetchTalent env (talentId rq) = Inr talent"
  shows "success (fst (pipeline analyze fallback pf env b))
     \<longleftrightarrow> respond env \<and>
         (isl (fst (snd (tryAnalysis analyze pf env)))
          \<longrightarrow> \<not> isl (fallback talent (fst (fetchCareerPath env talent))))"
  unfolding pipeline_fetched [OF assms] success_conclude ..

text \<open>Nothing but the recorded outcome of the release depends on how the release ends.\<close>

lemma pipeline_deleteFile:
  "fst (pipeline analyze fallback pf (env\<lparr>deleteFile := d\<rparr>) b)
     = fst (pipeline analyze fallback pf env b)"
proof -
  have 1: "preflight (env\<lparr>deleteFile := d\<rparr>) b = preflight env b"
    by (simp add: preflight_def internalError_def split: body.splits)
  have 2: "fetchTalent (env\<lparr>deleteFile := d\<rparr>) tid = fetchTalent env tid" for tid
    by (simp add: fetchTalent_def)
  have 3: "fetchCareerPath (env\<lparr>deleteFile := d\<rparr>) t = fetchCareerPath env t" for t
    by (simp add: fetchCareerPath_def)
  have 4: "tryAnalysis analyze pf (env\<lparr>deleteFile := d\<rparr>) = tryAnalysis analyze pf env"
    by (simp add: tryAnalysis_def extractTextFromCV_def Let_def split: sum.splits)
  have 5: "fst (conclude fallback msg (env\<lparr>deleteFile := d\<rparr>) rq t cp attempt earlier)
      = fst (conclude fallback msg env rq t cp attempt earlier)" for msg rq t cp attempt earlier
    by (simp add: fst_conclude report_def internalError_def split: sum.splits)
  show ?thesis
    by (simp add: pipeline_def 1 2 3 4 5 split: sum.splits prod.splits)
qed

text \<open>
  Claim C3 holds on the branches that send the response and fails on the others. Once a
  file is staged, main.js tries to release it once when the success response goes out,
  after the analysis or after the fallback, and twice when the request ends in the outer
  \<open>catch\<close>: the \<open>finally\<close> block has released the file and the outer \<open>catch\<close> tries again.
  The request ends there when sending the response throws, and when the analysis fails and
  the fallback builder throws, which it does for a stage label that names an inherited
  property. With a stage label that names none, a response that is sent means one release.
  How the release ends changes nothing in the response.
\<close>

theorem release_attempts:
  assumes "preflight env b = Inr rq" and "fetchTalent env (talentId rq) = Inr talent"
    and "createFile env = Inr fileId" and "fileId \<noteq> []"
  shows "releases (snd (handler pf env b)) = (if success (fst (handler pf env b)) then 1 else 2) \<and>
         (\<not> respond env \<longrightarrow> releases (snd (handler pf env b)) = 2) \<and>
         (careerStage talent \<in> set inheritedNames \<and> extractReply env = Inl e
            \<longrightarrow> releases (snd (handler pf env b)) = 2) \<and>
         (respond env \<and> careerStage talent \<notin> set inheritedNames
            \<longrightarrow> releases (snd (handler pf env b)) = 1) \<and>
         fst (handler pf (env\<lparr>deleteFile := d\<rparr>) b) = fst (handler pf env b)"
proof -
  note rel = pipeline_releases [OF assms, of analyzeCVContent generateFallbackAnalysis pf]
  note suc = pipeline_success [OF assms(1,2), of analyzeCVContent generateFallbackAnalysis pf]
  have out: "extractReply env = Inl e \<Longrightarrow> isl (fst (snd (tryAnalysis analyzeCVContent pf env)))"
    by (simp add: tryAnalysis_outcome extractTextFromCV_def rethrow_def)
  show ?thesis
    using rel suc out
    by (auto simp: handler_def pipeline_deleteFile generateFallbackAnalysis_throws)
qed

theorem release_attempts_witness:
  "createFile throwingEnv = Inr ''file1'' \<and> \<not> respond throwingEnv \<and>
   statusCode (fst (handler (examplePlatform ''{}'' []) throwingEnv (Payload exampleRequest))) = 500 \<and>
   releases (snd (handler (examplePlatform ''{}'' []) throwingEnv (Payload exampleRequest))) = 2 \<and>
   careerStage inheritedTalent \<in> set inheritedNames \<and> respond inheritedStageEnv \<and>
   releases (snd (handler (examplePlatform ''{}'' []) inheritedStageEnv (Payload exampleRequest))) = 2 \<and>
   respond extractionFailsEnv \<and> careerStage exampleTalent \<notin> set inheritedNames \<and>
   releases (snd (handler (examplePlatform ''{}'' []) extractionFailsEnv (Payload exampleRequest))) = 1"
proof -
  have 1: "preflight throwingEnv (Payload exampleRequest) = Inr exampleRequest"
    "preflight inheritedStageEnv (Payload exampleRequest) = Inr exampleRequest"
    "preflight extractionFailsEnv (Payload exampleRequest) = Inr exampleRequest"
    by (simp_all add: preflight_def throwingEnv_def inheritedStageEnv_def extractionFailsEnv_def
        exampleEnv_def exampleRequest_def fileExtension_resume allowedExtensions_def)
  have 2: "fetchTalent throwingEnv (talentId exampleRequest) = Inr exampleTalent"
    "fetchTalent inheritedStageEnv (talentId exampleRequest) = Inr inheritedTalent"
    "fetchTalent extractionFailsEnv (talentId exampleRequest) = Inr exampleTalent"
    by (simp_all add: fetchTalent_def throwingEnv_def inheritedStageEnv_def
        extractionFailsEnv_def exampleEnv_def exampleRequest_def)
  have 3: "createFile throwingEnv = Inr ''file1''" "createFile inheritedStageEnv = Inr ''file1''"
    "createFile extractionFailsEnv = Inr ''file1''"
    by (simp_all add: throwingEnv_def inheritedStageEnv_def extractionFailsEnv_def exampleEnv_def)
  have 4: "\<not> respond throwingEnv" "respond inheritedStageEnv" "respond extractionFailsEnv"
    "extractReply inheritedStageEnv = Inl (Error ''Model overloaded'')"
    by (simp_all add: throwingEnv_def inheritedStageEnv_def extractionFailsEnv_def exampleEnv_def)
  have 5: "careerStage inheritedTalent \<in> set inheritedNames"
    by (simp add: inheritedTalent_def inheritedNames_def)
  have 6: "statusCode (fst (handler (examplePlatform ''{}'' []) throwingEnv (Payload exampleRequest))) = 500"
    unfolding handler_def pipeline_fetched [OF 1(1) 2(1)]
    by (simp add: fst_conclude 4 internalError_def split: sum.splits)
  show ?thesis
    using release_attempts [OF 1(1) 2(1) 3(1), where pf = "examplePlatform ''{}'' []"
        and d = "deleteFile throwingEnv" and e = "Error ''Model overloaded''"]
      release_attempts [OF 1(2) 2(2) 3(2), where pf = "examplePlatform ''{}'' []"
        and d = "deleteFile inheritedStageEnv" and e = "Error ''Model overloaded''"]
      release_attempts [OF 1(3) 2(3) 3(3), where pf = "examplePlatform ''{}'' []"
        and d = "deleteFile extractionFailsEnv" and e = "Error ''Model overloaded''"]
      3 4 5 6 exampleTalent_stage
    by simp
qed
section \<open>Errors of the AI path\<close>

lemma fallbackResponse_Inr:
  assumes "fallback talent (fst (fetchCareerPath env talent)) = Inr r"
  shows "fallbackResponse fallback msg env rq talent
       = report env rq talent (fst (fetchCareerPath env talent)) r True"
  using assms by (cases "fetchCareerPath env talent") (simp add: fallbackResponse_def)

lemma fallbackResponse_Inl:
  assumes "fallback talent (fst (fetchCareerPath env talent)) = Inl e"
  shows "fallbackResponse fallback msg env rq talent = internalError env msg"
  using assms by (cases "fetchCareerPath env talent") (simp add: fallbackResponse_def)

lemma conclude_fallbackResponse:
  assumes "respond env" and "isl (fst (snd attempt))"
  shows "fst (conclude fallback msg env rq talent (fst (fetchCareerPath env talent)) attempt earlier)
       = fallbackResponse fallback msg env rq talent"
proof -
  obtain e where e: "fst (snd attempt) = Inl e"
    using assms(2) by (auto simp: isl_def)
  show ?thesis
    unfolding fst_conclude_fallback [OF e]
    by (cases "fallback talent (fst (fetchCareerPath env talent))")
      (simp_all add: fallbackResponse_Inr fallbackResponse_Inl assms(1))
qed

lemma pipeline_sent:
  assumes "preflight env b = Inr rq" and "fetchTalent env (talentId rq) = Inr talent"
    and "respond env"
  shows "\<not> isl (fallback talent (fst (fetchCareerPath env talent)))
         \<Longrightarrow> success (fst (pipeline analyze fallback pf env b))
             \<and> statusCode (fst (pipeline analyze fallback pf env b)) = 200"
    and "isl (extractTextFromCV env) \<or> isl (analyze pf (analysisReply env))
         \<Longrightarrow> fst (pipeline analyze fallback pf env b)
             = fallbackResponse fallback ''Internal server error occurred during analysis''
                 env rq talent"
proof -
  assume "\<not> isl (fallback talent (fst (fetchCareerPath env talent)))"
  then show "success (fst (pipeline analyze fallback pf env b))
      \<and> statusCode (fst (pipeline analyze fallback pf env b)) = 200"
    unfolding pipeline_fetched [OF assms(1,2)] fst_conclude using assms(3)
    by (auto simp: report_def split: sum.splits)
next
  assume "isl (extractTextFromCV env) \<or> isl (analyze pf (analysisReply env))"
  then have "isl (fst (snd (tryAnalysis analyze pf env)))"
    unfolding tryAnalysis_outcome by (auto split: sum.splits)
  then show "fst (pipeline analyze fallback pf env b)
      = fallbackResponse fallback ''Internal server error occurred during analysis'' env rq talent"
    unfolding pipeline_fetched [OF assms(1,2)] by (rule conclude_fallbackResponse [OF assms(3)])
qed

lemma report_fields:
  "success (report env rq talent cp r used)" "statusCode (report env rq talent cp r used) = 200"
  "analysis (report env rq talent cp r used) = Some r"
  "map_option usedFallback (metadata (report env rq talent cp r used)) = Some used"
  by (simp_all add: report_def)

lemma tryAnalysis_part_001_outcome:
  "isl (fst (snd (tryAnalysis_part_001 pf env))) \<longleftrightarrow>
     isl (createFile env) \<or> isl (extractReply env)
     \<or> (\<exists>cvText. extractReply env = Inr cvText \<and> (cvText = [] \<or> length (trim cvText) < 50))
     \<or> isl (analyzeCVContent_part_001 pf (analysisReply env))"
  by (cases "createFile env"; cases "extractReply env")
     (auto simp: tryAnalysis_part_001_def extractTextFromCV_part_001_def rethrow_def)

lemma handler_part_001_sent:
  assumes "preflight_part_001 env b = Inr rq"
    and "fetchTalent_part_001 env (talentId rq) = Inr talent" and "respond env"
  shows "success (fst (handler_part_001 pf env b))
         \<and> statusCode (fst (handler_part_001 pf env b)) = 200"
    and "isl (fst (snd (tryAnalysis_part_001 pf env)))
         \<Longrightarrow> fst (handler_part_001 pf env b)
             = fallbackResponse
                 (\<lambda>talent careerPath. Inr (generateFallbackAnalysis_part_001 talent careerPath))
                 ''Internal server error'' env rq talent"
proof -
  show "success (fst (handler_part_001 pf env b))
      \<and> statusCode (fst (handler_part_001 pf env b)) = 200"
    unfolding handler_part_001_fetched [OF assms(1,2)] fst_conclude using assms(3)
    by (auto simp: report_def split: sum.splits)
  assume "isl (fst (snd (tryAnalysis_part_001 pf env)))"
  then show "fst (handler_part_001 pf env b)
      = fallbackResponse
          (\<lambda>talent careerPath. Inr (generateFallbackAnalysis_part_001 talent careerPath))
          ''Internal server error'' env rq talent"
    unfolding handler_part_001_fetched [OF assms(1,2)]
    by (rule conclude_fallbackResponse [OF assms(3)])
qed

lemma sanitizeAndParse_goodReply: "sanitizeAndParse goodPlatform goodReply = Inr goodReport"
  by code_simp

lemma analyzeCVContent_goodReply:
  "analyzeCVContent goodPlatform (Inr goodReply) = Inr (JObj
     [(''overallScore'', JNum 100),
      (''careerStageAlignment'', JObj [(''alignmentScore'', JNum 0)]),
      (''strengths'', JArr [JStr ''SQL'']),
      (''weaknesses'', JArr [JStr ''No Docker'']),
      (''profileVsCvGaps'', JObj [(''missingFromCV'', JArr [])]),
      (''recommendations'', JArr [JStr ''Learn Docker'']),
      (''nextSteps'', JArr [JStr ''Get CKA'']),
      (''marketability'', JObj [(''score'', JNum 78.5)]),
      (''careerPathAlignment'', JObj [])])"
  by (simp add: analyzeCVContent_def sanitizeAndParse_goodReply rethrow_def requiredFields_def
      goodReport_def scoreFields_def clampScore_def)

lemma extractTextFromCV_exampleText:
  "extractReply env = Inr exampleText \<Longrightarrow> extractTextFromCV env = Inr exampleText"
  by (simp add: extractTextFromCV_def rethrow_def trim_def exampleText_def isSpace_def)

lemma preflight_example:
  "apiKey env \<Longrightarrow> preflight env (Payload exampleRequest) = Inr exampleRequest"
  by (simp add: preflight_def exampleRequest_def fileExtension_resume allowedExtensions_def)

lemma fetchTalent_example:
  "listDocuments env ''t1'' = Inr [exampleTalent]
   \<Longrightarrow> fetchTalent env (talentId exampleRequest) = Inr exampleTalent"
  by (simp add: fetchTalent_def exampleRequest_def)

text \<open>
  Claim C1, as stated, fails for an error of the file staging in main.js: the error is
  caught on the spot, the analysis goes on with the buffer, and when the model answers the
  report is the model's and the fallback is not used.
\<close>

theorem staging_error_without_fallback:
  "isl (createFile stagingFailsEnv) \<and>
   success (fst (handler goodPlatform stagingFailsEnv (Payload exampleRequest))) \<and>
   map_option usedFallback (metadata (fst (handler goodPlatform stagingFailsEnv (Payload exampleRequest))))
     = Some False"
proof -
  have 1: "preflight stagingFailsEnv (Payload exampleRequest) = Inr exampleRequest"
    by (rule preflight_example) (simp add: stagingFailsEnv_def exampleEnv_def)
  have 2: "fetchTalent stagingFailsEnv (talentId exampleRequest) = Inr exampleTalent"
    by (rule fetchTalent_example) (simp add: stagingFailsEnv_def exampleEnv_def)
  have 3: "extractTextFromCV stagingFailsEnv = Inr exampleText"
    by (rule extractTextFromCV_exampleText) (simp add: stagingFailsEnv_def exampleEnv_def)
  have 4: "analysisReply stagingFailsEnv = Inr goodReply" "respond stagingFailsEnv"
    "isl (createFile stagingFailsEnv)"
    by (simp_all add: stagingFailsEnv_def exampleEnv_def)
  have 5: "fst (snd (tryAnalysis analyzeCVContent goodPlatform stagingFailsEnv))
      = analyzeCVContent goodPlatform (Inr goodReply)"
    unfolding tryAnalysis_outcome 3 by (simp add: 4)
  show ?thesis
    unfolding handler_def pipeline_fetched [OF 1 2]
      fst_conclude_analysed [OF 5 [unfolded analyzeCVContent_goodReply]]
    by (simp add: 4 report_def)
qed

text \<open>
  Claim C1, amended. Take a request whose profile is fetched and whose response is sent.
  In part_000 and part_001, and in main.js for a profile whose stage label names no
  inherited property of an object, the response has \<open>success: true\<close> and status 200
  whatever fails in the staging, the extraction, the analysis or the sanitizing. When the
  extraction or the analysis (its model call, the sanitizer, the parser, the test of the
  fields) fails, the response is the success response with the report of the fallback
  builder and \<open>usedFallback: true\<close>. A failed staging does that in part_001 only; main.js
  and part_000 go on without the staged file.
\<close>

theorem ai_errors_absorbed:
  assumes "respond env"
  shows "(preflight env b = Inr rq \<and> fetchTalent env (talentId rq) = Inr talent
            \<and> careerStage talent \<notin> set inheritedNames \<longrightarrow>
            success (fst (handler pf env b)) \<and> statusCode (fst (handler pf env b)) = 200 \<and>
            (isl (extractTextFromCV env) \<or> isl (analyzeCVContent pf (analysisReply env)) \<longrightarrow>
               (\<exists>r. generateFallbackAnalysis talent (fst (fetchCareerPath env talent)) = Inr r
                  \<and> fst (handler pf env b)
                      = report env rq talent (fst (fetchCareerPath env talent)) r True)))
       \<and> (preflight env b = Inr rq \<and> fetchTalent env (talentId rq) = Inr talent \<longrightarrow>
            success (fst (handler_part_000 pf env b)) \<and>
            statusCode (fst (handler_part_000 pf env b)) = 200 \<and>
            (isl (extractTextFromCV env) \<or> isl (analyzeCVContent_part_000 pf (analysisReply env)) \<longrightarrow>
               fst (handler_part_000 pf env b)
                 = report env rq talent (fst (fetchCareerPath env talent))
                     (generateFallbackAnalysis_part_000 talent (fst (fetchCareerPath env talent)))
                     True))
       \<and> (preflight_part_001 env b = Inr rq \<and> fetchTalent_part_001 env (talentId rq) = Inr talent \<longrightarrow>
            success (fst (handler_part_001 pf env b)) \<and>
            statusCode (fst (handler_part_001 pf env b)) = 200 \<and>
            (isl (createFile env) \<or> isl (extractReply env)
               \<or> (\<exists>cvText. extractReply env = Inr cvText
                     \<and> (cvText = [] \<or> length (trim cvText) < 50))
               \<or> isl (analyzeCVContent_part_001 pf (analysisReply env)) \<longrightarrow>
               fst (handler_part_001 pf env b)
                 = report env rq talent (fst (fetchCareerPath env talent))
                     (generateFallbackAnalysis_part_001 talent (fst (fetchCareerPath env talent)))
                     True))"
proof (intro conjI impI; (elim conjE)?)
  assume f: "preflight env b = Inr rq" "fetchTalent env (talentId rq) = Inr talent"
    and stage: "careerStage talent \<notin> set inheritedNames"
  have total: "\<not> isl (generateFallbackAnalysis talent (fst (fetchCareerPath env talent)))"
    using stage by (simp only: generateFallbackAnalysis_throws not_False_eq_True)
  from pipeline_sent(1) [where fallback = generateFallbackAnalysis and analyze = analyzeCVContent
      and pf = pf, OF f assms total]
  show "success (fst (handler pf env b))" "statusCode (fst (handler pf env b)) = 200"
    unfolding handler_def by simp_all
  assume "isl (extractTextFromCV env) \<or> isl (analyzeCVContent pf (analysisReply env))"
  then have "fst (handler pf env b)
      = fallbackResponse generateFallbackAnalysis
          ''Internal server error occurred during analysis'' env rq talent"
    unfolding handler_def by (rule pipeline_sent(2) [OF f assms])
  moreover obtain r where "generateFallbackAnalysis talent (fst (fetchCareerPath env talent)) = Inr r"
    using total by (cases "generateFallbackAnalysis talent (fst (fetchCareerPath env talent))") auto
  ultimately show "\<exists>r. generateFallbackAnalysis talent (fst (fetchCareerPath env talent)) = Inr r
      \<and> fst (handler pf env b) = report env rq talent (fst (fetchCareerPath env talent)) r True"
    by (simp add: fallbackResponse_Inr)
next
  assume f: "preflight env b = Inr rq" "fetchTalent env (talentId rq) = Inr talent"
  have "success (fst (handler_part_000 pf env b))
      \<and> statusCode (fst (handler_part_000 pf env b)) = 200"
    unfolding handler_part_000_def
    by (rule pipeline_sent(1)
        [where fallback = "\<lambda>talent careerPath. Inr (generateFallbackAnalysis_part_000 talent careerPath)",
          OF f assms]) simp
  then show "success (fst (handler_part_000 pf env b))"
    "statusCode (fst (handler_part_000 pf env b)) = 200"
    by simp_all
  assume "isl (extractTextFromCV env) \<or> isl (analyzeCVContent_part_000 pf (analysisReply env))"
  then have "fst (handler_part_000 pf env b)
      = fallbackResponse (\<lambda>talent careerPath. Inr (generateFallbackAnalysis_part_000 talent careerPath))
          ''Internal server error occurred during analysis'' env rq talent"
    unfolding handler_part_000_def by (rule pipeline_sent(2) [OF f assms])
  then show "fst (handler_part_000 pf env b)
      = report env rq talent (fst (fetchCareerPath env talent))
          (generateFallbackAnalysis_part_000 talent (fst (fetchCareerPath env talent))) True"
    by (simp add: fallbackResponse_Inr)
next
  assume f: "preflight_part_001 env b = Inr rq" "fetchTalent_part_001 env (talentId rq) = Inr talent"
  from handler_part_001_sent(1) [OF f assms, of pf]
  show "success (fst (handler_part_001 pf env b))"
    "statusCode (fst (handler_part_001 pf env b)) = 200"
    by simp_all
  assume "isl (createFile env) \<or> isl (extractReply env)
      \<or> (\<exists>cvText. extractReply env = Inr cvText \<and> (cvText = [] \<or> length (trim cvText) < 50))
      \<or> isl (analyzeCVContent_part_001 pf (analysisReply env))"
  then have "isl (fst (snd (tryAnalysis_part_001 pf env)))"
    by (simp only: tryAnalysis_part_001_outcome)
  then have "fst (handler_part_001 pf env b)
      = fallbackResponse (\<lambda>talent careerPath. Inr (generateFallbackAnalysis_part_001 talent careerPath))
          ''Internal server error'' env rq talent"
    by (rule handler_part_001_sent(2) [OF f assms])
  then show "fst (handler_part_001 pf env b)
      = report env rq talent (fst (fetchCareerPath env talent))
          (generateFallbackAnalysis_part_001 talent (fst (fetchCareerPath env talent))) True"
    by (simp add: fallbackResponse_Inr)
qed

lemma fetchCareerPath_example:
  "getDocument env ''path1'' = Inr exampleCareerPath
   \<Longrightarrow> fst (fetchCareerPath env exampleTalent) = Some exampleCareerPath"
  by (simp add: fetchCareerPath_def exampleTalent_def)

theorem ai_errors_absorbed_witness:
  "respond extractionFailsEnv \<and>
   preflight extractionFailsEnv (Payload exampleRequest) = Inr exampleRequest \<and>
   fetchTalent extractionFailsEnv (talentId exampleRequest) = Inr exampleTalent \<and>
   careerStage exampleTalent \<notin> set inheritedNames \<and>
   isl (extractTextFromCV extractionFailsEnv) \<and>
   success (fst (handler goodPlatform extractionFailsEnv (Payload exampleRequest))) \<and>
   statusCode (fst (handler goodPlatform extractionFailsEnv (Payload exampleRequest))) = 200 \<and>
   analysis (fst (handler goodPlatform extractionFailsEnv (Payload exampleRequest)))
     = Some (fallbackReport trailblazerContent exampleTalent (Some exampleCareerPath)) \<and>
   map_option usedFallback
     (metadata (fst (handler goodPlatform extractionFailsEnv (Payload exampleRequest)))) = Some True"
proof -
  have 0: "respond extractionFailsEnv"
    by (simp add: extractionFailsEnv_def exampleEnv_def)
  have 1: "preflight extractionFailsEnv (Payload exampleRequest) = Inr exampleRequest"
    by (rule preflight_example) (simp add: extractionFailsEnv_def exampleEnv_def)
  have 2: "fetchTalent extractionFailsEnv (talentId exampleRequest) = Inr exampleTalent"
    by (rule fetchTalent_example) (simp add: extractionFailsEnv_def exampleEnv_def)
  have 3: "isl (extractTextFromCV extractionFailsEnv)"
    by (simp add: extractTextFromCV_def rethrow_def extractionFailsEnv_def exampleEnv_def)
  have 4: "fst (fetchCareerPath extractionFailsEnv exampleTalent) = Some exampleCareerPath"
    by (rule fetchCareerPath_example) (simp add: extractionFailsEnv_def exampleEnv_def)
  show ?thesis
    using ai_errors_absorbed
      [OF 0, of "Payload exampleRequest" exampleRequest exampleTalent goodPlatform]
      0 1 2 3 exampleTalent_stage
    by (auto simp: 4 generateFallbackAnalysis_example report_fields)
qed
section \<open>The test of the required fields\<close>


lemma checkRequired_first:
  "\<not> truthy (map_of a f) \<Longrightarrow> checkRequired pre (f # fs) a = Some (Error (pre @ f))"
  by simp

text \<open>The clamping of main.js raises nothing on an object: its paths have one or two keys.\<close>

lemma clampPath_last_total: "\<exists>obj'. clampPath pf [k] obj = Inr obj'"
  by simp

lemma getProp_setProp:
  "getProp (setProp (JObj kvs) k x) k' = (if k' = k then Some x else map_of kvs k')"
  by (simp add: update_conv')








text \<open>
  Claim C10. A parsed response whose overall score is the number zero, whatever else it
  holds, makes the analysis of main.js and of part_000 throw the error of a missing field,
  for \<open>overallScore\<close>: the test is \<open>!analysis[field]\<close>, and zero is falsy. The handler
  then takes the fallback path: it answers what the \<open>catch\<close> answers, which for a stage
  label that names no inherited property is the success response with the report of the
  fallback builder and \<open>usedFallback: true\<close>.
\<close>

theorem zero_overall_score_counts_as_missing:
  assumes "sanitizeAndParse pf responseText = Inr parsed"
    and "map_of parsed ''overallScore'' = Some (JNum 0)"
  shows "analyzeCVContent pf (Inr responseText)
           = Inl (Error ''Failed to analyze CV content: Missing required field in analysis: overallScore'')
       \<and> analyzeCVContent_part_000 pf (Inr responseText)
           = Inl (Error ''Failed to analyze CV content: Missing required field in analysis: overallScore'')
       \<and> (preflight env b = Inr rq \<and> fetchTalent env (talentId rq) = Inr talent \<and> respond env
            \<and> analysisReply env = Inr responseText
          \<longrightarrow> fst (handler pf env b)
                = fallbackResponse generateFallbackAnalysis
                    ''Internal server error occurred during analysis'' env rq talent
              \<and> (careerStage talent \<notin> set inheritedNames
                 \<longrightarrow> (\<exists>r. generateFallbackAnalysis talent (fst (fetchCareerPath env talent)) = Inr r
                        \<and> fst (handler pf env b)
                            = report env rq talent (fst (fetchCareerPath env talent)) r True)))"
proof -
  have 1: "analyzeCVContent pf (Inr responseText)
      = Inl (Error ''Failed to analyze CV content: Missing required field in analysis: overallScore'')"
    using assms by (simp add: analyzeCVContent_def requiredFields_def rethrow_def)
  have 2: "analyzeCVContent_part_000 pf (Inr responseText)
      = Inl (Error ''Failed to analyze CV content: Missing required field in analysis: overallScore'')"
    using assms by (simp add: analyzeCVContent_part_000_def requiredFields_part_000_def rethrow_def)
  have 3: "fst (handler pf env b)
      = fallbackResponse generateFallbackAnalysis
          ''Internal server error occurred during analysis'' env rq talent"
    if "preflight env b = Inr rq" "fetchTalent env (talentId rq) = Inr talent" "respond env"
      "analysisReply env = Inr responseText"
    unfolding handler_def
    by (rule pipeline_sent(2) [OF that(1,2,3)]) (simp add: that(4) 1)
  have 4: "\<exists>r. generateFallbackAnalysis talent (fst (fetchCareerPath env talent)) = Inr r
      \<and> fallbackResponse generateFallbackAnalysis
            ''Internal server error occurred during analysis'' env rq talent
          = report env rq talent (fst (fetchCareerPath env talent)) r True"
    if "careerStage talent \<notin> set inheritedNames"
    using generateFallbackAnalysis_returns [OF that, of "fst (fetchCareerPath env talent)"]
    by (auto simp: fallbackResponse_Inr)
  show ?thesis using 1 2 3 4 by auto
qed

lemma sanitizeAndParse_zeroReply: "sanitizeAndParse zeroPlatform zeroReply = Inr zeroReport"
  by code_simp

theorem zero_overall_score_counts_as_missing_witness:
  "sanitizeAndParse zeroPlatform zeroReply = Inr zeroReport \<and>
   map_of zeroReport ''overallScore'' = Some (JNum 0) \<and>
   careerStage exampleTalent \<notin> set inheritedNames \<and>
   list_all (\<lambda>f. map_of zeroReport f \<noteq> None) (requiredFields @ listedFields) \<and>
   analyzeCVContent zeroPlatform (Inr zeroReply)
     = Inl (Error ''Failed to analyze CV content: Missing required field in analysis: overallScore'') \<and>
   map_option usedFallback
     (metadata (fst (handler zeroPlatform (exampleEnv (Inr exampleText) (Inr zeroReply))
        (Payload exampleRequest)))) = Some True"
proof -
  let ?env = "exampleEnv (Inr exampleText) (Inr zeroReply)"
  have 0: "map_of zeroReport ''overallScore'' = Some (JNum 0)"
    by (simp add: zeroReport_def)
  have 1: "preflight ?env (Payload exampleRequest) = Inr exampleRequest"
    by (rule preflight_example) (simp add: exampleEnv_def)
  have 2: "fetchTalent ?env (talentId exampleRequest) = Inr exampleTalent"
    by (rule fetchTalent_example) (simp add: exampleEnv_def)
  have 3: "respond ?env" "analysisReply ?env = Inr zeroReply"
    by (simp_all add: exampleEnv_def)
  have 4: "list_all (\<lambda>f. map_of zeroReport f \<noteq> None) (requiredFields @ listedFields)"
    by (simp add: zeroReport_def requiredFields_def listedFields_def)
  note t = zero_overall_score_counts_as_missing
    [OF sanitizeAndParse_zeroReply 0, of ?env "Payload exampleRequest" exampleRequest exampleTalent]
  from t 1 2 3 exampleTalent_stage
  obtain r where "fst (handler zeroPlatform ?env (Payload exampleRequest))
      = report ?env exampleRequest exampleTalent (fst (fetchCareerPath ?env exampleTalent)) r True"
    by blast
  then have 5: "map_option usedFallback
      (metadata (fst (handler zeroPlatform ?env (Payload exampleRequest)))) = Some True"
    by (simp only: report_fields)
  show ?thesis
    using t sanitizeAndParse_zeroReply 0 4 5 exampleTalent_stage by simp
qed





section \<open>The scores of a report\<close>


































end
